theory Spec2Isabelle
  imports Complex_Main "HOL-Library.Option_ord" "HOL-Library.Multiset"
begin

section \<open>Shared notions\<close>

text \<open>
  An \<open>async\<close> method is modelled by its outcome: \<open>Inr v\<close> when the promise resolves with
  \<open>v\<close>, \<open>Inl e\<close> when it rejects. The two modules contain no \<open>throw\<close> and no
  \<open>try\<close>/\<open>catch\<close>; a rejection can only come out of an awaited collaborator. The first
  four errors are the ones the specification names. The other three come out of the
  database layer: \<open>SqlError\<close> when the database refuses a statement or a bound value,
  \<open>ConstraintError\<close> when an insert violates a constraint of the schema, and
  \<open>NoValuesToSet\<close> when an update is built from an empty set of columns.
\<close>

datatype error =
  RemediationError | NotFoundError | ValidationError | InvalidStateError
  | SqlError | ConstraintError | NoValuesToSet

type_synonym 'a promise = "error + 'a"

text \<open>\<open>await p; k\<close>: a rejected promise aborts the rest of the method.\<close>

definition await :: "'a promise \<Rightarrow> ('a \<Rightarrow> 'b promise) \<Rightarrow> 'b promise" where
  "await p k = (case p of Inl e \<Rightarrow> Inl e | Inr v \<Rightarrow> k v)"

text \<open>Decimal rendering of a length inside a template literal.\<close>

fun string_of_nat :: "nat \<Rightarrow> string" where
  "string_of_nat n =
     (if n < 10 then [''0123456789'' ! n]
      else string_of_nat (n div 10) @ [''0123456789'' ! (n mod 10)])"

declare string_of_nat.simps [simp del]

text \<open>\<open>Array.prototype.join\<close>.\<close>

fun join :: "string \<Rightarrow> string list \<Rightarrow> string" where
  "join sep [] = []"
| "join sep [x] = x"
| "join sep (x # y # ys) = x @ sep @ join sep (y # ys)"

section \<open>Ops specialist (orchestrator/ops-specialist/index.ts)\<close>

subsection \<open>Order-scoped tables and the environment\<close>

text \<open>
  Rows of the tables \<open>followups\<close> and \<open>operation_logs\<close>, with the columns the source reads.
  Field \<open>fu_x\<close> is column \<open>x\<close> of \<open>followups\<close>, \<open>ol_x\<close> column \<open>x\<close> of \<open>operation_logs\<close>.
  \<open>file_path\<close> may be NULL (the source writes \<open>file_path ?? 'unknown'\<close>).
\<close>

record followup =
  fu_order_id :: string
  fu_type :: string
  fu_impact_level :: int
  fu_file_path :: "string option"
  fu_message :: string

record operation_log =
  ol_order_id :: string
  ol_operation :: string

record d1 =
  tbl_followups :: "followup list"
  tbl_operation_logs :: "operation_log list"

text \<open>
  \<open>Env\<close>: the binding \<open>DB\<close> and, in \<open>remediation\<close>, whatever state the issue-tracking
  collaborator keeps.
\<close>

record 'w Env =
  DB :: d1
  remediation :: 'w

text \<open>The object literal handed to \<open>githubRemediation.createIssue\<close>.\<close>

record issue_context =
  error_code :: string
  file_path :: string
  message :: string
  order_id :: "string option"

text \<open>
  \<open>githubRemediation.createIssue(env, context, note)\<close> is imported from
  \<open>worker/services/remediation/githubRemediation\<close>, a module whose source is not available.
  The operations below take it as a parameter of this type: the environment goes in, and
  the call resolves with the environment it leaves behind or rejects.
\<close>

type_synonym 'w createIssue = "'w Env \<Rightarrow> issue_context \<Rightarrow> string \<Rightarrow> 'w Env promise"

subsection \<open>resolveConflict\<close>

definition conflict_note :: "string \<Rightarrow> string \<Rightarrow> string list \<Rightarrow> string" where
  "conflict_note repo branch conflictFiles =
     ''Conflict detected in '' @ repo @ '':'' @ branch
       @ [CHR '' '', CHR 0xE2, CHR 0x86, CHR 0x92, CHR '' ''] @ join '', '' conflictFiles"

definition resolveConflict ::
  "'w createIssue \<Rightarrow> 'w Env \<Rightarrow> string \<Rightarrow> string \<Rightarrow> string list \<Rightarrow> 'w Env promise" where
  "resolveConflict createIssue env repo branch conflictFiles =
     (let note = conflict_note repo branch conflictFiles
      in createIssue env
           \<lparr> error_code = ''merge_conflict'',
             file_path = (case conflictFiles of [] \<Rightarrow> ''unknown'' | f # _ \<Rightarrow> f),
             message = note,
             order_id = None \<rparr>
           ''Ops Specialist auto-detected conflict and opened an issue.'')"

subsection \<open>generateDeliveryReport\<close>

record report_summary =
  issues :: nat
  ops_count :: nat
  last_updated :: string

record delivery_report =
  rep_order_id :: string
  summary :: report_summary
  followups :: "followup list"
  operations :: "operation_log list"

text \<open>
  \<open>SELECT * FROM followups WHERE order_id = ? ORDER BY impact_level ASC\<close> and
  \<open>SELECT * FROM operation_logs WHERE order_id = ?\<close>. The sort is the stable one of the
  library; SQL leaves the order of rows with equal keys open.
\<close>

definition select_followups :: "d1 \<Rightarrow> string \<Rightarrow> followup list" where
  "select_followups db orderId =
     sort_key fu_impact_level (filter (\<lambda>f. fu_order_id f = orderId) (tbl_followups db))"

definition select_operation_logs :: "d1 \<Rightarrow> string \<Rightarrow> operation_log list" where
  "select_operation_logs db orderId =
     filter (\<lambda>l. ol_order_id l = orderId) (tbl_operation_logs db)"

text \<open>\<open>now\<close> stands for \<open>new Date().toISOString()\<close>.\<close>

definition generateDeliveryReport :: "string \<Rightarrow> 'w Env \<Rightarrow> string \<Rightarrow> delivery_report" where
  "generateDeliveryReport now env orderId =
     (let results = select_followups (DB env) orderId;
          ops = select_operation_logs (DB env) orderId
      in \<lparr> rep_order_id = orderId,
           summary = \<lparr> issues = length results, ops_count = length ops, last_updated = now \<rparr>,
           followups = results,
           operations = ops \<rparr>)"

subsection \<open>finalQA\<close>

definition final_qa_note :: string where
  "final_qa_note =
     ''Final QA failed '' @ [CHR 0xE2, CHR 0x80, CHR 0x94] @ '' unresolved followups remain.''"

record qa_result =
  report :: delivery_report
  status :: string

definition finalQA ::
  "'w createIssue \<Rightarrow> string \<Rightarrow> 'w Env \<Rightarrow> string \<Rightarrow> (qa_result \<times> 'w Env) promise" where
  "finalQA createIssue now env orderId =
     (let report = generateDeliveryReport now env orderId;
          blocked = filter (\<lambda>f. fu_type f = ''blocked'') (followups report)
      in await
           (if length blocked > 0
            then createIssue env
                   \<lparr> error_code = ''final_qa_blocked'',
                     file_path = (case fu_file_path (blocked ! 0) of
                                    None \<Rightarrow> ''unknown'' | Some p \<Rightarrow> p),
                     message = string_of_nat (length blocked) @ '' unresolved blockers.'',
                     order_id = Some orderId \<rparr>
                   final_qa_note
            else Inr env)
           (\<lambda>env'. Inr (\<lparr> report = report,
                           status = (if length blocked \<noteq> 0 then ''failed'' else ''passed'') \<rparr>,
                         env')))"

text \<open>
  The state of an issue-tracking collaborator: whether the issue system can be reached, and
  the issues opened so far, oldest first.
\<close>

record tracker =
  reachable :: bool
  opened :: "(issue_context \<times> string) list"

text \<open>
  Modelled from the spec: \<open>githubRemediation.createIssue\<close>, whose source is missing. The
  specification gives its contract: it opens a tracking issue in the external issue system,
  and fails with \<open>RemediationError\<close> if issue creation itself fails.
\<close>

definition githubRemediation_createIssue :: "tracker createIssue" where
  "githubRemediation_createIssue env ctx note =
     (if reachable (remediation env)
      then Inr (env\<lparr>remediation :=
                  (remediation env)\<lparr>opened := opened (remediation env) @ [(ctx, note)]\<rparr>\<rparr>)
      else Inl RemediationError)"

text \<open>
  At least one followup of type \<open>blocked\<close> exists for the order: the condition of the final
  QA gate in the words of the specification, stated on the table itself.
\<close>

definition blocked_exists :: "d1 \<Rightarrow> string \<Rightarrow> bool" where
  "blocked_exists db orderId =
     (\<exists>f \<in> set (tbl_followups db). fu_order_id f = orderId \<and> fu_type f = ''blocked'')"

section \<open>Health record store (orchestrator/worker/entrypoints/HealthOps.ts)\<close>

subsection \<open>Tables\<close>

text \<open>
  Rows of \<open>schema.healthChecks\<close> (fields \<open>hc_\<close>) and \<open>schema.workerHealthChecks\<close> (fields
  \<open>wc_\<close>). The source of the schema module (\<open>database/health/schema\<close>) is not available;
  the columns are the ones the entrypoint reads and writes, and a column is nullable where
  the entrypoint reads it through \<open>?? default\<close>. Scores are fractions; timestamps are integer epoch milliseconds.
\<close>

record healthChecks_row =
  hc_id :: nat
  hc_healthCheckUuid :: string
  hc_triggerType :: string
  hc_triggerSource :: "string option"
  hc_status :: "string option"
  hc_totalWorkers :: "int option"
  hc_completedWorkers :: "int option"
  hc_passedWorkers :: "int option"
  hc_failedWorkers :: "int option"
  hc_overallHealthScore :: "rat option"
  hc_aiAnalysis :: "string option"
  hc_aiRecommendations :: "string option"
  hc_startedAt :: "int option"
  hc_completedAt :: "int option"
  hc_timeoutAt :: "int option"
  hc_createdAt :: "int option"

record workerHealthChecks_row =
  wc_id :: nat
  wc_workerCheckUuid :: string
  wc_healthCheckUuid :: string
  wc_workerName :: string
  wc_workerType :: string
  wc_workerUrl :: "string option"
  wc_status :: "string option"
  wc_overallStatus :: "string option"
  wc_healthScore :: "rat option"
  wc_createdAt :: "int option"
  wc_completedAt :: "int option"

record health_db =
  healthChecks :: "healthChecks_row list"
  workerHealthChecks :: "workerHealthChecks_row list"

subsection \<open>Query building blocks\<close>


text \<open>
  \<open>.limit(l).offset(k)\<close> on integer-valued numbers. The query builder writes \<open>LIMIT ?\<close> only
  for a limit that is not negative, and \<open>OFFSET ?\<close> only for an offset other than zero. So
  a negative limit with the offset zero puts no bound on the rows, and a negative limit
  with any other offset gives \<open>OFFSET\<close> without \<open>LIMIT\<close>, which the database refuses. A
  bound value must fit a signed 64-bit integer, or the database refuses it. A negative
  offset counts as zero.
\<close>

definition int64 :: "int \<Rightarrow> bool" where
  "int64 n = (- (2 ^ 63) \<le> n \<and> n < 2 ^ 63)"

definition accepted :: "int \<Rightarrow> int \<Rightarrow> bool" where
  "accepted l k = (if l < 0 then k = 0 else int64 l \<and> (k = 0 \<or> int64 k))"

definition window :: "int \<Rightarrow> int \<Rightarrow> 'r list \<Rightarrow> 'r list" where
  "window l k rows = (if l < 0 then rows else take (nat l) (drop (nat k) rows))"

definition limit_offset :: "int \<Rightarrow> int \<Rightarrow> 'r list \<Rightarrow> 'r list promise" where
  "limit_offset l k rows = (if accepted l k then Inr (window l k rows) else Inl SqlError)"


text \<open>The \<open>id\<close> of an inserted row: one more than the largest one in the table.\<close>

definition next_id :: "nat list \<Rightarrow> nat" where
  "next_id ids = Suc (fold max ids 0)"



subsection \<open>Health check operations\<close>

record HealthCheckResponse =
  id_r :: nat
  healthCheckUuid :: string
  triggerType :: string
  triggerSource :: "string option"
  status_r :: string
  totalWorkers :: int
  completedWorkers :: int
  passedWorkers :: int
  failedWorkers :: int
  overallHealthScore :: rat
  aiAnalysis :: "string option"
  aiRecommendations :: "string option"
  startedAt :: int
  completedAt :: "int option"
  timeoutAt :: "int option"
  createdAt :: int

text \<open>
  The object literal both read operations build from a row; \<open>now\<close> stands for
  \<open>Date.now()\<close>. \<open>a ?? b\<close> is \<open>case a of None \<Rightarrow> b | Some v \<Rightarrow> v\<close>.
\<close>

definition toHealthCheckResponse :: "int \<Rightarrow> healthChecks_row \<Rightarrow> HealthCheckResponse" where
  "toHealthCheckResponse now check =
     \<lparr> id_r = hc_id check,
       healthCheckUuid = hc_healthCheckUuid check,
       triggerType = hc_triggerType check,
       triggerSource = hc_triggerSource check,
       status_r = (case hc_status check of None \<Rightarrow> ''running'' | Some v \<Rightarrow> v),
       totalWorkers = (case hc_totalWorkers check of None \<Rightarrow> 0 | Some v \<Rightarrow> v),
       completedWorkers = (case hc_completedWorkers check of None \<Rightarrow> 0 | Some v \<Rightarrow> v),
       passedWorkers = (case hc_passedWorkers check of None \<Rightarrow> 0 | Some v \<Rightarrow> v),
       failedWorkers = (case hc_failedWorkers check of None \<Rightarrow> 0 | Some v \<Rightarrow> v),
       overallHealthScore = (case hc_overallHealthScore check of None \<Rightarrow> 0 | Some v \<Rightarrow> v),
       aiAnalysis = hc_aiAnalysis check,
       aiRecommendations = hc_aiRecommendations check,
       startedAt = (case hc_startedAt check of None \<Rightarrow> now | Some v \<Rightarrow> v),
       completedAt = hc_completedAt check,
       timeoutAt = hc_timeoutAt check,
       createdAt = (case hc_createdAt check of None \<Rightarrow> now | Some v \<Rightarrow> v) \<rparr>"

definition getHealthCheck ::
  "health_db \<Rightarrow> int \<Rightarrow> string \<Rightarrow> HealthCheckResponse option promise" where
  "getHealthCheck db now uuid =
     await (limit_offset 1 0
              (filter (\<lambda>c. hc_healthCheckUuid c = uuid) (healthChecks db)))
       (\<lambda>rows. case rows of
                   [] \<Rightarrow> Inr None
                 | check # _ \<Rightarrow> Inr (Some (toHealthCheckResponse now check)))"





text \<open>
  Modelled from the spec: what the missing schema module declares for \<open>schema.healthChecks\<close>.
  A column that an insert does not set takes its default. By the data model of the
  specification a run has a start timestamp from its creation on and is created with zero
  completed, passed and failed counts, and its overall score is not defined while it is
  running; by the persisted state layout every optional field is \<open>null\<close> when absent. So
  the start and creation timestamps default to the time of the insert (\<open>now\<close>), the three
  counts to zero, and every other column to NULL. The three columns that are not nullable
  are set by every insert; \<open>id\<close> is the auto-incrementing row identifier.
\<close>

definition healthChecks_default :: "int \<Rightarrow> healthChecks_row" where
  "healthChecks_default now =
     \<lparr> hc_id = 0, hc_healthCheckUuid = [], hc_triggerType = [],
       hc_triggerSource = None, hc_status = None, hc_totalWorkers = None,
       hc_completedWorkers = Some 0, hc_passedWorkers = Some 0, hc_failedWorkers = Some 0,
       hc_overallHealthScore = None, hc_aiAnalysis = None, hc_aiRecommendations = None,
       hc_startedAt = Some now, hc_completedAt = None, hc_timeoutAt = None,
       hc_createdAt = Some now \<rparr>"

text \<open>
  Modelled from the spec: the constraint of \<open>schema.healthChecks\<close> that the run identifier is
  unique (the data model's \<open>unique run identifier\<close>). The database refuses an insert that
  would break it.
\<close>

definition healthChecks_unique :: "health_db \<Rightarrow> string \<Rightarrow> bool" where
  "healthChecks_unique db uuid = (uuid \<notin> hc_healthCheckUuid ` set (healthChecks db))"

text \<open>\<open>.insert(schema.healthChecks).values({...}).returning()\<close>, then \<open>{ id: check.id }\<close>.\<close>

record createHealthCheck_params =
  chc_healthCheckUuid :: string
  chc_triggerType :: string
  chc_triggerSource :: "string option"
  chc_totalWorkers :: "int option"
  chc_timeoutAt :: "int option"

definition createHealthCheck ::
  "health_db \<Rightarrow> int \<Rightarrow> createHealthCheck_params \<Rightarrow> (nat \<times> health_db) promise" where
  "createHealthCheck db now params =
     (let check =
            (healthChecks_default now)
              \<lparr> hc_id := next_id (map hc_id (healthChecks db)),
                hc_healthCheckUuid := chc_healthCheckUuid params,
                hc_triggerType := chc_triggerType params,
                hc_triggerSource := chc_triggerSource params,
                hc_totalWorkers :=
                  Some (case chc_totalWorkers params of None \<Rightarrow> 0 | Some v \<Rightarrow> v),
                hc_timeoutAt := chc_timeoutAt params,
                hc_status := Some ''running'' \<rparr>
      in if healthChecks_unique db (hc_healthCheckUuid check)
         then Inr (hc_id check, db\<lparr>healthChecks := healthChecks db @ [check]\<rparr>)
         else Inl ConstraintError)"

text \<open>
  \<open>updateData\<close> holds a column exactly when the parameter is not \<open>undefined\<close>;
  \<open>.set(updateData)\<close> overwrites those columns and keeps the others, in every row the
  \<open>where\<close> clause selects, as the SQL \<open>UPDATE\<close> does. When no parameter but the identifier
  is given, \<open>updateData\<close> is the empty object, and \<open>.set\<close> of the query builder throws
  (\<open>No values to set\<close>) before any statement runs.
\<close>

record updateHealthCheck_params =
  uhc_healthCheckUuid :: string
  uhc_status :: "string option"
  uhc_completedWorkers :: "int option"
  uhc_passedWorkers :: "int option"
  uhc_failedWorkers :: "int option"
  uhc_overallHealthScore :: "rat option"
  uhc_aiAnalysis :: "string option"
  uhc_aiRecommendations :: "string option"
  uhc_completedAt :: "int option"

definition assign :: "'a option \<Rightarrow> 'a option \<Rightarrow> 'a option" where
  "assign param column = (case param of None \<Rightarrow> column | Some v \<Rightarrow> Some v)"

definition set_healthCheck :: "updateHealthCheck_params \<Rightarrow> healthChecks_row \<Rightarrow> healthChecks_row"
  where
  "set_healthCheck params check =
     check\<lparr> hc_status := assign (uhc_status params) (hc_status check),
            hc_completedWorkers := assign (uhc_completedWorkers params) (hc_completedWorkers check),
            hc_passedWorkers := assign (uhc_passedWorkers params) (hc_passedWorkers check),
            hc_failedWorkers := assign (uhc_failedWorkers params) (hc_failedWorkers check),
            hc_overallHealthScore :=
              assign (uhc_overallHealthScore params) (hc_overallHealthScore check),
            hc_aiAnalysis := assign (uhc_aiAnalysis params) (hc_aiAnalysis check),
            hc_aiRecommendations :=
              assign (uhc_aiRecommendations params) (hc_aiRecommendations check),
            hc_completedAt := assign (uhc_completedAt params) (hc_completedAt check) \<rparr>"

record ok_result =
  ok :: bool

definition healthCheck_updateData_empty :: "updateHealthCheck_params \<Rightarrow> bool" where
  "healthCheck_updateData_empty params =
     (uhc_status params = None \<and> uhc_completedWorkers params = None
      \<and> uhc_passedWorkers params = None \<and> uhc_failedWorkers params = None
      \<and> uhc_overallHealthScore params = None \<and> uhc_aiAnalysis params = None
      \<and> uhc_aiRecommendations params = None \<and> uhc_completedAt params = None)"

definition updateHealthCheck ::
  "health_db \<Rightarrow> updateHealthCheck_params \<Rightarrow> (ok_result \<times> health_db) promise" where
  "updateHealthCheck db params =
     (if healthCheck_updateData_empty params then Inl NoValuesToSet
      else Inr (\<lparr> ok = True \<rparr>,
                db\<lparr>healthChecks :=
                     map (\<lambda>c. if hc_healthCheckUuid c = uhc_healthCheckUuid params
                               then set_healthCheck params c else c)
                         (healthChecks db)\<rparr>))"

subsection \<open>Worker health check operations\<close>

record WorkerHealthCheckResponse =
  id_w :: nat
  workerCheckUuid :: string
  healthCheckUuid_w :: string
  workerName :: string
  workerType :: string
  workerUrl :: "string option"
  status_w :: string
  overallStatus :: "string option"
  healthScore :: rat
  createdAt_w :: int
  completedAt_w :: "int option"

definition toWorkerHealthCheckResponse ::
  "int \<Rightarrow> workerHealthChecks_row \<Rightarrow> WorkerHealthCheckResponse" where
  "toWorkerHealthCheckResponse now check =
     \<lparr> id_w = wc_id check,
       workerCheckUuid = wc_workerCheckUuid check,
       healthCheckUuid_w = wc_healthCheckUuid check,
       workerName = wc_workerName check,
       workerType = wc_workerType check,
       workerUrl = wc_workerUrl check,
       status_w = (case wc_status check of None \<Rightarrow> ''pending'' | Some v \<Rightarrow> v),
       overallStatus = wc_overallStatus check,
       healthScore = (case wc_healthScore check of None \<Rightarrow> 0 | Some v \<Rightarrow> v),
       createdAt_w = (case wc_createdAt check of None \<Rightarrow> now | Some v \<Rightarrow> v),
       completedAt_w = wc_completedAt check \<rparr>"

definition getWorkerHealthCheck ::
  "health_db \<Rightarrow> int \<Rightarrow> string \<Rightarrow> WorkerHealthCheckResponse option promise" where
  "getWorkerHealthCheck db now uuid =
     await (limit_offset 1 0
              (filter (\<lambda>c. wc_workerCheckUuid c = uuid) (workerHealthChecks db)))
       (\<lambda>rows. case rows of
                   [] \<Rightarrow> Inr None
                 | check # _ \<Rightarrow> Inr (Some (toWorkerHealthCheckResponse now check)))"



text \<open>
  Modelled from the spec: what the missing schema module declares for
  \<open>schema.workerHealthChecks\<close>. By the data model of the specification a result has a
  creation timestamp and no health score while it is pending, so the creation timestamp
  defaults to the time of the insert and every other column that an insert does not set
  to NULL.
\<close>

definition workerHealthChecks_default :: "int \<Rightarrow> workerHealthChecks_row" where
  "workerHealthChecks_default now =
     \<lparr> wc_id = 0, wc_workerCheckUuid = [], wc_healthCheckUuid = [], wc_workerName = [],
       wc_workerType = [], wc_workerUrl = None, wc_status = None, wc_overallStatus = None,
       wc_healthScore = None, wc_createdAt = Some now, wc_completedAt = None \<rparr>"

text \<open>
  Modelled from the spec: the constraints of \<open>schema.workerHealthChecks\<close>. By the data model
  a result has a \<open>unique check identifier\<close> and is \<open>foreign-keyed to its parent
  HealthCheckRun by run identifier\<close>. The database refuses an insert that would break
  either.
\<close>

definition workerHealthChecks_constraints :: "health_db \<Rightarrow> workerHealthChecks_row \<Rightarrow> bool" where
  "workerHealthChecks_constraints db check =
     (wc_workerCheckUuid check \<notin> wc_workerCheckUuid ` set (workerHealthChecks db)
      \<and> wc_healthCheckUuid check \<in> hc_healthCheckUuid ` set (healthChecks db))"

text \<open>
  \<open>.insert(schema.workerHealthChecks).values({...}).returning()\<close>, then
  \<open>{ id: check.id }\<close>. The method itself looks at no table before the insert.
\<close>

record createWorkerHealthCheck_params =
  cwc_workerCheckUuid :: string
  cwc_healthCheckUuid :: string
  cwc_workerName :: string
  cwc_workerType :: string
  cwc_workerUrl :: "string option"

definition createWorkerHealthCheck ::
  "health_db \<Rightarrow> int \<Rightarrow> createWorkerHealthCheck_params \<Rightarrow> (nat \<times> health_db) promise" where
  "createWorkerHealthCheck db now params =
     (let check =
            (workerHealthChecks_default now)
              \<lparr> wc_id := next_id (map wc_id (workerHealthChecks db)),
                wc_workerCheckUuid := cwc_workerCheckUuid params,
                wc_healthCheckUuid := cwc_healthCheckUuid params,
                wc_workerName := cwc_workerName params,
                wc_workerType := cwc_workerType params,
                wc_workerUrl := cwc_workerUrl params,
                wc_status := Some ''pending'' \<rparr>
      in if workerHealthChecks_constraints db check
         then Inr (wc_id check, db\<lparr>workerHealthChecks := workerHealthChecks db @ [check]\<rparr>)
         else Inl ConstraintError)"

record updateWorkerHealthCheck_params =
  uwc_workerCheckUuid :: string
  uwc_status :: "string option"
  uwc_overallStatus :: "string option"
  uwc_healthScore :: "rat option"
  uwc_completedAt :: "int option"

definition set_workerHealthCheck ::
  "updateWorkerHealthCheck_params \<Rightarrow> workerHealthChecks_row \<Rightarrow> workerHealthChecks_row" where
  "set_workerHealthCheck params check =
     check\<lparr> wc_status := assign (uwc_status params) (wc_status check),
            wc_overallStatus := assign (uwc_overallStatus params) (wc_overallStatus check),
            wc_healthScore := assign (uwc_healthScore params) (wc_healthScore check),
            wc_completedAt := assign (uwc_completedAt params) (wc_completedAt check) \<rparr>"

definition workerHealthCheck_updateData_empty :: "updateWorkerHealthCheck_params \<Rightarrow> bool"
  where
  "workerHealthCheck_updateData_empty params =
     (uwc_status params = None \<and> uwc_overallStatus params = None
      \<and> uwc_healthScore params = None \<and> uwc_completedAt params = None)"

definition updateWorkerHealthCheck ::
  "health_db \<Rightarrow> updateWorkerHealthCheck_params \<Rightarrow> (ok_result \<times> health_db) promise" where
  "updateWorkerHealthCheck db params =
     (if workerHealthCheck_updateData_empty params then Inl NoValuesToSet
      else Inr (\<lparr> ok = True \<rparr>,
                db\<lparr>workerHealthChecks :=
                     map (\<lambda>c. if wc_workerCheckUuid c = uwc_workerCheckUuid params
                               then set_workerHealthCheck params c else c)
                         (workerHealthChecks db)\<rparr>))"

subsection \<open>Store states and the reference invariant\<close>

definition empty_db :: health_db where
  "empty_db = \<lparr> healthChecks = [], workerHealthChecks = [] \<rparr>"

text \<open>
  The store states that can be reached from the empty store through the four writing
  operations of the entrypoint.
\<close>

inductive reachable_store :: "health_db \<Rightarrow> bool" where
  init: "reachable_store empty_db"
| createHC: "reachable_store db \<Longrightarrow> createHealthCheck db now params = Inr (i, db')
               \<Longrightarrow> reachable_store db'"
| updateHC: "reachable_store db \<Longrightarrow> updateHealthCheck db params = Inr (r, db')
               \<Longrightarrow> reachable_store db'"
| createWC: "reachable_store db \<Longrightarrow> createWorkerHealthCheck db now params = Inr (i, db')
               \<Longrightarrow> reachable_store db'"
| updateWC: "reachable_store db \<Longrightarrow> updateWorkerHealthCheck db params = Inr (r, db')
               \<Longrightarrow> reachable_store db'"

text \<open>
  The invariant of the specification: every result's run identifier references an existing
  run.
\<close>

definition run_exists :: "health_db \<Rightarrow> string \<Rightarrow> bool" where
  "run_exists db uuid = (\<exists>r \<in> set (healthChecks db). hc_healthCheckUuid r = uuid)"

definition results_reference_runs :: "health_db \<Rightarrow> bool" where
  "results_reference_runs db =
     (\<forall>c \<in> set (workerHealthChecks db). run_exists db (wc_healthCheckUuid c))"

section \<open>Example states\<close>

definition followups_ex :: "followup list" where
  "followups_ex =
     [ \<lparr> fu_order_id = ''o1'', fu_type = ''advisory'', fu_impact_level = 1,
         fu_file_path = Some ''x.ts'', fu_message = ''note'' \<rparr>,
       \<lparr> fu_order_id = ''o1'', fu_type = ''blocked'', fu_impact_level = 3,
         fu_file_path = Some ''b.ts'', fu_message = ''late'' \<rparr>,
       \<lparr> fu_order_id = ''o1'', fu_type = ''blocked'', fu_impact_level = 2,
         fu_file_path = Some ''a.ts'', fu_message = ''early'' \<rparr>,
       \<lparr> fu_order_id = ''o2'', fu_type = ''blocked'', fu_impact_level = 0,
         fu_file_path = None, fu_message = ''nowhere'' \<rparr> ]"

definition env_ex :: "bool \<Rightarrow> tracker Env" where
  "env_ex up =
     \<lparr> DB = \<lparr> tbl_followups = followups_ex,
              tbl_operation_logs = [ \<lparr> ol_order_id = ''o1'', ol_operation = ''build'' \<rparr> ] \<rparr>,
       remediation = \<lparr> reachable = up, opened = [] \<rparr> \<rparr>"

text \<open>
  The row of a run as \<open>createHealthCheck\<close> stores it at the time \<open>t\<close> for three workers, and
  the parameters of that call.
\<close>

definition run_ex :: "nat \<Rightarrow> string \<Rightarrow> string \<Rightarrow> int \<Rightarrow> healthChecks_row" where
  "run_ex i uuid trigger t =
     \<lparr> hc_id = i, hc_healthCheckUuid = uuid, hc_triggerType = trigger,
       hc_triggerSource = None, hc_status = Some ''running'', hc_totalWorkers = Some 3,
       hc_completedWorkers = Some 0, hc_passedWorkers = Some 0, hc_failedWorkers = Some 0,
       hc_overallHealthScore = None, hc_aiAnalysis = None, hc_aiRecommendations = None,
       hc_startedAt = Some t, hc_completedAt = None, hc_timeoutAt = None,
       hc_createdAt = Some t \<rparr>"

definition create_run :: "string \<Rightarrow> string \<Rightarrow> createHealthCheck_params" where
  "create_run uuid trigger =
     \<lparr> chc_healthCheckUuid = uuid, chc_triggerType = trigger, chc_triggerSource = None,
       chc_totalWorkers = Some 3, chc_timeoutAt = None \<rparr>"

text \<open>
  The row of a result as \<open>createWorkerHealthCheck\<close> stores it at the time \<open>t\<close>, and the
  parameters of that call.
\<close>

definition result_ex :: "nat \<Rightarrow> string \<Rightarrow> string \<Rightarrow> int \<Rightarrow> workerHealthChecks_row" where
  "result_ex i uuid run t =
     \<lparr> wc_id = i, wc_workerCheckUuid = uuid, wc_healthCheckUuid = run,
       wc_workerName = ''api'', wc_workerType = ''factory'', wc_workerUrl = None,
       wc_status = Some ''pending'', wc_overallStatus = None, wc_healthScore = None,
       wc_createdAt = Some t, wc_completedAt = None \<rparr>"

definition create_result :: "string \<Rightarrow> string \<Rightarrow> createWorkerHealthCheck_params" where
  "create_result uuid run =
     \<lparr> cwc_workerCheckUuid = uuid, cwc_healthCheckUuid = run, cwc_workerName = ''api'',
       cwc_workerType = ''factory'', cwc_workerUrl = None \<rparr>"

text \<open>Updates that store a score and leave the status as it is, and updates of nothing.\<close>

definition score_run :: "string \<Rightarrow> rat option \<Rightarrow> updateHealthCheck_params" where
  "score_run uuid score =
     \<lparr> uhc_healthCheckUuid = uuid, uhc_status = None, uhc_completedWorkers = None,
       uhc_passedWorkers = None, uhc_failedWorkers = None,
       uhc_overallHealthScore = score, uhc_aiAnalysis = None,
       uhc_aiRecommendations = None, uhc_completedAt = None \<rparr>"

definition score_result :: "string \<Rightarrow> rat option \<Rightarrow> updateWorkerHealthCheck_params" where
  "score_result uuid score =
     \<lparr> uwc_workerCheckUuid = uuid, uwc_status = None, uwc_overallStatus = None,
       uwc_healthScore = score, uwc_completedAt = None \<rparr>"





text \<open>
  The store after creating the run \<open>r1\<close> at the time 5 and the result \<open>w1\<close> for it at the
  time 6, and the same store after the two score updates.
\<close>

definition db_run :: health_db where
  "db_run = \<lparr> healthChecks = [run_ex 1 ''r1'' ''manual'' 5], workerHealthChecks = [] \<rparr>"

definition db_created :: health_db where
  "db_created = db_run\<lparr>workerHealthChecks := [result_ex 1 ''w1'' ''r1'' 6]\<rparr>"

definition db_scored :: health_db where
  "db_scored =
     \<lparr> healthChecks = [(run_ex 1 ''r1'' ''manual'' 5)\<lparr>hc_overallHealthScore := Some (9 / 10)\<rparr>],
       workerHealthChecks =
         [(result_ex 1 ''w1'' ''r1'' 6)\<lparr>wc_healthScore := Some (1 / 2)\<rparr>] \<rparr>"

section \<open>Properties of the ops specialist\<close>

subsection \<open>Blocked followups of a report\<close>

lemma blocked_Nil_iff:
  "filter (\<lambda>f. fu_type f = ''blocked'') (followups (generateDeliveryReport now env orderId)) = []
     \<longleftrightarrow> \<not> blocked_exists (DB env) orderId"
  by (auto simp: blocked_exists_def generateDeliveryReport_def select_followups_def
        Let_def filter_empty_conv)

lemma length_filter_sort_key:
  "length (filter P (sort_key k (filter Q xs))) = length (filter (\<lambda>x. Q x \<and> P x) xs)"
proof -
  have "mset (filter P (sort_key k (filter Q xs))) = mset (filter P (filter Q xs))"
    by (simp only: mset_filter mset_sort)
  then have "length (filter P (sort_key k (filter Q xs))) = length (filter P (filter Q xs))"
    by (rule mset_eq_length)
  then show ?thesis by (simp only: filter_filter)
qed

lemma length_blocked:
  "length (filter (\<lambda>f. fu_type f = ''blocked'') (followups (generateDeliveryReport now env orderId)))
     = length (filter (\<lambda>f. fu_order_id f = orderId \<and> fu_type f = ''blocked'') (tbl_followups (DB env)))"
  by (simp add: generateDeliveryReport_def select_followups_def Let_def length_filter_sort_key)

lemma finalQA_unfold:
  "finalQA createIssue now env orderId =
     (case filter (\<lambda>f. fu_type f = ''blocked'') (followups (generateDeliveryReport now env orderId)) of
        [] \<Rightarrow> Inr (\<lparr> report = generateDeliveryReport now env orderId, status = ''passed'' \<rparr>, env)
      | b # bs \<Rightarrow>
          await (createIssue env
                   \<lparr> error_code = ''final_qa_blocked'',
                     file_path = (case fu_file_path b of None \<Rightarrow> ''unknown'' | Some p \<Rightarrow> p),
                     message = string_of_nat (Suc (length bs)) @ '' unresolved blockers.'',
                     order_id = Some orderId \<rparr>
                   final_qa_note)
            (\<lambda>env'. Inr (\<lparr> report = generateDeliveryReport now env orderId, status = ''failed'' \<rparr>, env')))"
  by (simp add: finalQA_def Let_def await_def split: list.splits)

lemma finalQA_passed:
  assumes "\<not> blocked_exists (DB env) orderId"
  shows "finalQA createIssue now env orderId =
           Inr (\<lparr> report = generateDeliveryReport now env orderId, status = ''passed'' \<rparr>, env)"
proof -
  have "filter (\<lambda>f. fu_type f = ''blocked'')
          (followups (generateDeliveryReport now env orderId)) = []"
    using assms blocked_Nil_iff [of now env orderId] by simp
  then show ?thesis by (simp add: finalQA_unfold)
qed

lemma finalQA_dispatch:
  assumes "blocked_exists (DB env) orderId"
  shows "\<exists>b bs. filter (\<lambda>f. fu_type f = ''blocked'')
                   (followups (generateDeliveryReport now env orderId)) = b # bs
           \<and> Suc (length bs) =
               length (filter (\<lambda>f. fu_order_id f = orderId \<and> fu_type f = ''blocked'')
                         (tbl_followups (DB env)))
           \<and> finalQA createIssue now env orderId =
               (case createIssue env
                       \<lparr> error_code = ''final_qa_blocked'',
                         file_path = (case fu_file_path b of
                                        None \<Rightarrow> ''unknown'' | Some p \<Rightarrow> p),
                         message = string_of_nat (Suc (length bs)) @ '' unresolved blockers.'',
                         order_id = Some orderId \<rparr>
                       final_qa_note of
                  Inl e \<Rightarrow> Inl e
                | Inr env' \<Rightarrow> Inr (\<lparr> report = generateDeliveryReport now env orderId,
                                     status = ''failed'' \<rparr>, env'))"
proof -
  obtain b bs where Cons: "filter (\<lambda>f. fu_type f = ''blocked'')
                   (followups (generateDeliveryReport now env orderId)) = b # bs"
    using assms blocked_Nil_iff [of now env orderId] by (meson list.exhaust)
  have count: "Suc (length bs) =
      length (filter (\<lambda>f. fu_order_id f = orderId \<and> fu_type f = ''blocked'')
                (tbl_followups (DB env)))"
    using length_blocked [of now env orderId] Cons by simp
  have disp: "finalQA createIssue now env orderId =
               (case createIssue env
                       \<lparr> error_code = ''final_qa_blocked'',
                         file_path = (case fu_file_path b of
                                        None \<Rightarrow> ''unknown'' | Some p \<Rightarrow> p),
                         message = string_of_nat (Suc (length bs)) @ '' unresolved blockers.'',
                         order_id = Some orderId \<rparr>
                       final_qa_note of
                  Inl e \<Rightarrow> Inl e
                | Inr env' \<Rightarrow> Inr (\<lparr> report = generateDeliveryReport now env orderId,
                                     status = ''failed'' \<rparr>, env'))"
    using Cons by (simp add: finalQA_unfold await_def)
  from Cons count disp show ?thesis by (intro exI [of _ b] exI [of _ bs] conjI)
qed

lemma finalQA_status:
  assumes "finalQA createIssue now env orderId = Inr (r, env')"
  shows "status r = (if blocked_exists (DB env) orderId then ''failed'' else ''passed'')"
proof (cases "filter (\<lambda>f. fu_type f = ''blocked'')
                (followups (generateDeliveryReport now env orderId))")
  case Nil
  then have "\<not> blocked_exists (DB env) orderId"
    using blocked_Nil_iff [of now env orderId] by simp
  moreover have "status r = ''passed''"
    using assms Nil by (auto simp: finalQA_unfold)
  ultimately show ?thesis by simp
next
  case (Cons b bs)
  then have "blocked_exists (DB env) orderId"
    using blocked_Nil_iff [of now env orderId] by simp
  moreover have "status r = ''failed''"
    using assms Cons by (auto simp: finalQA_unfold await_def split: sum.splits)
  ultimately show ?thesis by simp
qed

subsection \<open>The verdict of the final QA gate\<close>

text \<open>
  The specification has \<open>finalQA\<close> return \<open>failed\<close> whenever a blocked followup exists. With
  the issue system out of reach, the order \<open>o2\<close> has a blocked followup and \<open>finalQA\<close>
  returns no status at all: it fails with the error of the issue creation.
\<close>

theorem finalQA_no_verdict_counterexample:
  "blocked_exists (DB (env_ex False)) ''o2''
   \<and> map_sum id (\<lambda>result. status (fst result))
       (finalQA githubRemediation_createIssue ''t'' (env_ex False) ''o2'') =
       Inl RemediationError"
proof -
  have some: "blocked_exists (DB (env_ex False)) ''o2''"
    by (simp add: blocked_exists_def env_ex_def followups_ex_def)
  have down: "githubRemediation_createIssue (env_ex False) ctx n = Inl RemediationError"
    for ctx n
    by (simp add: githubRemediation_createIssue_def env_ex_def)
  have "filter (\<lambda>f. fu_type f = ''blocked'')
          (followups (generateDeliveryReport ''t'' (env_ex False) ''o2'')) =
        [ \<lparr> fu_order_id = ''o2'', fu_type = ''blocked'', fu_impact_level = 0,
            fu_file_path = None, fu_message = ''nowhere'' \<rparr> ]"
    by (simp add: generateDeliveryReport_def select_followups_def env_ex_def followups_ex_def
        Let_def)
  then have "finalQA githubRemediation_createIssue ''t'' (env_ex False) ''o2'' =
               Inl RemediationError"
    by (simp add: finalQA_unfold down await_def)
  with some show ?thesis by simp
qed

text \<open>
  C1, as the code has it. For every order, \<open>finalQA\<close> returns the status \<open>passed\<close>, and
  leaves the environment alone, when no followup of type \<open>blocked\<close> exists for the order.
  When at least one exists, it makes exactly one call of \<open>createIssue\<close>, whose file path is
  that of the first blocked item of the report (\<open>unknown\<close> when that path is NULL) and whose
  message carries the number of blocked followups of the order; it returns the status
  \<open>failed\<close> if that call succeeds, and fails with the error of that call otherwise. So a
  status that is returned is \<open>failed\<close> exactly when a blocked followup exists and \<open>passed\<close>
  exactly when none does.
\<close>

theorem finalQA_verdict:
  "(\<not> blocked_exists (DB env) orderId \<longrightarrow>
      finalQA createIssue now env orderId =
        Inr (\<lparr> report = generateDeliveryReport now env orderId, status = ''passed'' \<rparr>, env))
   \<and> (blocked_exists (DB env) orderId \<longrightarrow>
        (\<exists>b bs. filter (\<lambda>f. fu_type f = ''blocked'')
                   (followups (generateDeliveryReport now env orderId)) = b # bs
           \<and> Suc (length bs) =
               length (filter (\<lambda>f. fu_order_id f = orderId \<and> fu_type f = ''blocked'')
                         (tbl_followups (DB env)))
           \<and> finalQA createIssue now env orderId =
               (case createIssue env
                       \<lparr> error_code = ''final_qa_blocked'',
                         file_path = (case fu_file_path b of
                                        None \<Rightarrow> ''unknown'' | Some p \<Rightarrow> p),
                         message = string_of_nat (Suc (length bs)) @ '' unresolved blockers.'',
                         order_id = Some orderId \<rparr>
                       final_qa_note of
                  Inl e \<Rightarrow> Inl e
                | Inr env' \<Rightarrow> Inr (\<lparr> report = generateDeliveryReport now env orderId,
                                     status = ''failed'' \<rparr>, env'))))
   \<and> (\<forall>r env'. finalQA createIssue now env orderId = Inr (r, env') \<longrightarrow>
          (status r = ''failed'' \<longleftrightarrow> blocked_exists (DB env) orderId)
        \<and> (status r = ''passed'' \<longleftrightarrow> \<not> blocked_exists (DB env) orderId))"
proof (intro conjI impI allI)
  assume "\<not> blocked_exists (DB env) orderId"
  then show "finalQA createIssue now env orderId =
        Inr (\<lparr> report = generateDeliveryReport now env orderId, status = ''passed'' \<rparr>, env)"
    by (rule finalQA_passed)
next
  assume "blocked_exists (DB env) orderId"
  then show "\<exists>b bs. filter (\<lambda>f. fu_type f = ''blocked'')
                   (followups (generateDeliveryReport now env orderId)) = b # bs
           \<and> Suc (length bs) =
               length (filter (\<lambda>f. fu_order_id f = orderId \<and> fu_type f = ''blocked'')
                         (tbl_followups (DB env)))
           \<and> finalQA createIssue now env orderId =
               (case createIssue env
                       \<lparr> error_code = ''final_qa_blocked'',
                         file_path = (case fu_file_path b of
                                        None \<Rightarrow> ''unknown'' | Some p \<Rightarrow> p),
                         message = string_of_nat (Suc (length bs)) @ '' unresolved blockers.'',
                         order_id = Some orderId \<rparr>
                       final_qa_note of
                  Inl e \<Rightarrow> Inl e
                | Inr env' \<Rightarrow> Inr (\<lparr> report = generateDeliveryReport now env orderId,
                                     status = ''failed'' \<rparr>, env'))"
    by (rule finalQA_dispatch)
next
  fix r env'
  assume "finalQA createIssue now env orderId = Inr (r, env')"
  then have st: "status r = (if blocked_exists (DB env) orderId then ''failed'' else ''passed'')"
    by (rule finalQA_status)
  show "(status r = ''failed'') = blocked_exists (DB env) orderId"
    using st by simp
  show "(status r = ''passed'') = (\<not> blocked_exists (DB env) orderId)"
    using st by simp
qed

text \<open>
  The gate on an order with two blocked followups (the one of lower impact comes first in
  the report) and on an order with none, the issue system being reachable.
\<close>

theorem finalQA_verdict_witness:
  "blocked_exists (DB (env_ex True)) ''o1''
   \<and> finalQA githubRemediation_createIssue ''t'' (env_ex True) ''o1'' =
       Inr (\<lparr> report = generateDeliveryReport ''t'' (env_ex True) ''o1'', status = ''failed'' \<rparr>,
            (env_ex True)\<lparr>remediation :=
               \<lparr> reachable = True,
                 opened = [(\<lparr> error_code = ''final_qa_blocked'', file_path = ''a.ts'',
                              message = ''2 unresolved blockers.'', order_id = Some ''o1'' \<rparr>,
                            final_qa_note)] \<rparr>\<rparr>)
   \<and> \<not> blocked_exists (DB (env_ex True)) ''o3''
   \<and> finalQA githubRemediation_createIssue ''t'' (env_ex True) ''o3'' =
       Inr (\<lparr> report = generateDeliveryReport ''t'' (env_ex True) ''o3'', status = ''passed'' \<rparr>,
            env_ex True)"
proof -
  have some: "blocked_exists (DB (env_ex True)) ''o1''"
    by (simp add: blocked_exists_def env_ex_def followups_ex_def)
  have none: "\<not> blocked_exists (DB (env_ex True)) ''o3''"
    by (simp add: blocked_exists_def env_ex_def followups_ex_def)
  have blocked: "filter (\<lambda>f. fu_type f = ''blocked'')
                   (followups (generateDeliveryReport ''t'' (env_ex True) ''o1'')) =
                 [ \<lparr> fu_order_id = ''o1'', fu_type = ''blocked'', fu_impact_level = 2,
                     fu_file_path = Some ''a.ts'', fu_message = ''early'' \<rparr>,
                   \<lparr> fu_order_id = ''o1'', fu_type = ''blocked'', fu_impact_level = 3,
                     fu_file_path = Some ''b.ts'', fu_message = ''late'' \<rparr> ]"
    by (simp add: generateDeliveryReport_def select_followups_def env_ex_def followups_ex_def Let_def)
  have two: "string_of_nat (Suc (Suc 0)) = ''2''"
    by (simp add: string_of_nat.simps)
  note v = finalQA_verdict [of "env_ex True" _ githubRemediation_createIssue "''t''"]
  from v [of "''o1''"] some obtain b bs where
    cons: "filter (\<lambda>f. fu_type f = ''blocked'')
             (followups (generateDeliveryReport ''t'' (env_ex True) ''o1'')) = b # bs"
    and disp: "finalQA githubRemediation_createIssue ''t'' (env_ex True) ''o1'' =
               (case githubRemediation_createIssue (env_ex True)
                       \<lparr> error_code = ''final_qa_blocked'',
                         file_path = (case fu_file_path b of
                                        None \<Rightarrow> ''unknown'' | Some p \<Rightarrow> p),
                         message = string_of_nat (Suc (length bs)) @ '' unresolved blockers.'',
                         order_id = Some ''o1'' \<rparr>
                       final_qa_note of
                  Inl e \<Rightarrow> Inl e
                | Inr env' \<Rightarrow> Inr (\<lparr> report = generateDeliveryReport ''t'' (env_ex True) ''o1'',
                                     status = ''failed'' \<rparr>, env'))"
    by blast
  from cons blocked have b: "b = \<lparr> fu_order_id = ''o1'', fu_type = ''blocked'', fu_impact_level = 2,
                     fu_file_path = Some ''a.ts'', fu_message = ''early'' \<rparr>"
    and bs: "length bs = Suc 0" by auto
  have failed: "finalQA githubRemediation_createIssue ''t'' (env_ex True) ''o1'' =
       Inr (\<lparr> report = generateDeliveryReport ''t'' (env_ex True) ''o1'', status = ''failed'' \<rparr>,
            (env_ex True)\<lparr>remediation :=
               \<lparr> reachable = True,
                 opened = [(\<lparr> error_code = ''final_qa_blocked'', file_path = ''a.ts'',
                              message = ''2 unresolved blockers.'', order_id = Some ''o1'' \<rparr>,
                            final_qa_note)] \<rparr>\<rparr>)"
    unfolding disp by (simp add: b bs two githubRemediation_createIssue_def env_ex_def)
  from v [of "''o3''"] none have passed:
    "finalQA githubRemediation_createIssue ''t'' (env_ex True) ''o3'' =
       Inr (\<lparr> report = generateDeliveryReport ''t'' (env_ex True) ''o3'', status = ''passed'' \<rparr>,
            env_ex True)"
    by blast
  from some failed none passed show ?thesis by (intro conjI)
qed

subsection \<open>A failing issue creation\<close>

text \<open>
  The specification has a failed issue creation swallowed. \<open>finalQA\<close> does not swallow it:
  with the issue system out of reach and two blocked followups for the order,
  \<open>createIssue\<close> fails with \<open>RemediationError\<close> and so does \<open>finalQA\<close>; no verdict is returned.
\<close>

theorem finalQA_swallow_counterexample:
  "blocked_exists (DB (env_ex False)) ''o1''
   \<and> githubRemediation_createIssue (env_ex False)
        \<lparr> error_code = ''final_qa_blocked'', file_path = ''a.ts'',
          message = ''2 unresolved blockers.'', order_id = Some ''o1'' \<rparr>
        final_qa_note = Inl RemediationError
   \<and> finalQA githubRemediation_createIssue ''t'' (env_ex False) ''o1'' = Inl RemediationError"
proof -
  have some: "blocked_exists (DB (env_ex False)) ''o1''"
    by (simp add: blocked_exists_def env_ex_def followups_ex_def)
  have down: "githubRemediation_createIssue (env_ex False) ctx n = Inl RemediationError"
    for ctx n
    by (simp add: githubRemediation_createIssue_def env_ex_def)
  have "filter (\<lambda>f. fu_type f = ''blocked'')
                   (followups (generateDeliveryReport ''t'' (env_ex False) ''o1'')) =
                 [ \<lparr> fu_order_id = ''o1'', fu_type = ''blocked'', fu_impact_level = 2,
                     fu_file_path = Some ''a.ts'', fu_message = ''early'' \<rparr>,
                   \<lparr> fu_order_id = ''o1'', fu_type = ''blocked'', fu_impact_level = 3,
                     fu_file_path = Some ''b.ts'', fu_message = ''late'' \<rparr> ]"
    by (simp add: generateDeliveryReport_def select_followups_def env_ex_def followups_ex_def Let_def)
  then have "finalQA githubRemediation_createIssue ''t'' (env_ex False) ''o1'' = Inl RemediationError"
    by (simp add: finalQA_unfold down await_def)
  with some down show ?thesis by simp
qed

text \<open>
  C2, as the code has it. For every order with at least one blocked followup, if the call of
  \<open>createIssue\<close> that \<open>finalQA\<close> makes fails with an error, \<open>finalQA\<close> fails with that same
  error: the call is awaited outside any \<open>try\<close>, so the failure propagates to the caller and
  no verdict is returned.
\<close>

theorem finalQA_propagates_failure:
  assumes "filter (\<lambda>f. fu_type f = ''blocked'')
             (followups (generateDeliveryReport now env orderId)) = b # bs"
    and "createIssue env
           \<lparr> error_code = ''final_qa_blocked'',
             file_path = (case fu_file_path b of None \<Rightarrow> ''unknown'' | Some p \<Rightarrow> p),
             message = string_of_nat (Suc (length bs)) @ '' unresolved blockers.'',
             order_id = Some orderId \<rparr>
           final_qa_note = Inl e"
  shows "finalQA createIssue now env orderId = Inl e"
  using assms by (simp add: finalQA_unfold await_def)

theorem finalQA_propagates_failure_witness:
  "filter (\<lambda>f. fu_type f = ''blocked'')
     (followups (generateDeliveryReport ''t'' (env_ex False) ''o2'')) =
     [ \<lparr> fu_order_id = ''o2'', fu_type = ''blocked'', fu_impact_level = 0,
         fu_file_path = None, fu_message = ''nowhere'' \<rparr> ]
   \<and> githubRemediation_createIssue (env_ex False)
        \<lparr> error_code = ''final_qa_blocked'', file_path = ''unknown'',
          message = string_of_nat 1 @ '' unresolved blockers.'', order_id = Some ''o2'' \<rparr>
        final_qa_note = Inl RemediationError
   \<and> finalQA githubRemediation_createIssue ''t'' (env_ex False) ''o2'' = Inl RemediationError"
proof -
  have blocked: "filter (\<lambda>f. fu_type f = ''blocked'')
     (followups (generateDeliveryReport ''t'' (env_ex False) ''o2'')) =
     [ \<lparr> fu_order_id = ''o2'', fu_type = ''blocked'', fu_impact_level = 0,
         fu_file_path = None, fu_message = ''nowhere'' \<rparr> ]"
    by (simp add: generateDeliveryReport_def select_followups_def env_ex_def followups_ex_def Let_def)
  have down: "githubRemediation_createIssue (env_ex False) ctx n = Inl RemediationError"
    for ctx n
    by (simp add: githubRemediation_createIssue_def env_ex_def)
  have "finalQA githubRemediation_createIssue ''t'' (env_ex False) ''o2'' = Inl RemediationError"
    by (rule finalQA_propagates_failure [OF blocked]) (rule down)
  with blocked down show ?thesis by (intro conjI)
qed

subsection \<open>Conflict resolution\<close>

text \<open>
  C5. For every non-empty list of conflicting file paths, \<open>resolveConflict\<close> is exactly one
  call of \<open>createIssue\<close>, on the environment as given, with error code \<open>merge_conflict\<close> and
  the first file of the list as the file path of the issue.
\<close>

theorem resolveConflict_dispatch:
  "resolveConflict createIssue env repo branch (f # fs) =
     createIssue env
       \<lparr> error_code = ''merge_conflict'',
         file_path = f,
         message = conflict_note repo branch (f # fs),
         order_id = None \<rparr>
       ''Ops Specialist auto-detected conflict and opened an issue.''"
  by (simp add: resolveConflict_def)

text \<open>
  The scenario of the specification: with the files \<open>a.ts\<close> and \<open>b.ts\<close> and a reachable issue
  system that has no issue yet, exactly one issue is open afterwards, and it names \<open>a.ts\<close>.
\<close>

theorem resolveConflict_dispatch_witness:
  "resolveConflict githubRemediation_createIssue (env_ex True) ''repo'' ''main'' [''a.ts'', ''b.ts''] =
     Inr ((env_ex True)\<lparr>remediation :=
            \<lparr> reachable = True,
              opened = [(\<lparr> error_code = ''merge_conflict'', file_path = ''a.ts'',
                           message = conflict_note ''repo'' ''main'' [''a.ts'', ''b.ts''],
                           order_id = None \<rparr>,
                         ''Ops Specialist auto-detected conflict and opened an issue.'')] \<rparr>\<rparr>)"
  unfolding resolveConflict_dispatch
  by (simp add: githubRemediation_createIssue_def env_ex_def)

subsection \<open>The delivery report\<close>

text \<open>
  C7. For every order, the followups of the delivery report are sorted by ascending impact
  level and are the followups of the table for that order, each as often as it is stored;
  the operations are the log entries of the order in insertion order; and the counts of the
  summary are the lengths of the two lists of the report.
\<close>

theorem generateDeliveryReport_sorted_counts:
  "sorted (map fu_impact_level (followups (generateDeliveryReport now env orderId)))
   \<and> mset (followups (generateDeliveryReport now env orderId)) =
       filter_mset (\<lambda>f. fu_order_id f = orderId) (mset (tbl_followups (DB env)))
   \<and> operations (generateDeliveryReport now env orderId) =
       filter (\<lambda>l. ol_order_id l = orderId) (tbl_operation_logs (DB env))
   \<and> issues (summary (generateDeliveryReport now env orderId)) =
       length (followups (generateDeliveryReport now env orderId))
   \<and> ops_count (summary (generateDeliveryReport now env orderId)) =
       length (operations (generateDeliveryReport now env orderId))"
  by (simp add: generateDeliveryReport_def select_followups_def select_operation_logs_def Let_def)

section \<open>Properties of the health record store\<close>

subsection \<open>Query building blocks\<close>

lemma limit_offset_first: "limit_offset 1 0 rows = Inr (take 1 rows)"
  by (simp add: limit_offset_def accepted_def window_def int64_def)










subsection \<open>The operations, case by case\<close>

lemma getHealthCheck_cases:
  "getHealthCheck db now uuid =
     (case filter (\<lambda>c. hc_healthCheckUuid c = uuid) (healthChecks db) of
        [] \<Rightarrow> Inr None
      | check # _ \<Rightarrow> Inr (Some (toHealthCheckResponse now check)))"
  by (simp add: getHealthCheck_def limit_offset_first await_def split: list.splits)

lemma getWorkerHealthCheck_cases:
  "getWorkerHealthCheck db now uuid =
     (case filter (\<lambda>c. wc_workerCheckUuid c = uuid) (workerHealthChecks db) of
        [] \<Rightarrow> Inr None
      | check # _ \<Rightarrow> Inr (Some (toWorkerHealthCheckResponse now check)))"
  by (simp add: getWorkerHealthCheck_def limit_offset_first await_def split: list.splits)

lemma filter_Cons_mem: "filter P xs = y # ys \<Longrightarrow> y \<in> set xs \<and> P y"
proof -
  assume "filter P xs = y # ys"
  then have "y \<in> set (filter P xs)" by simp
  then show ?thesis by simp
qed



lemma set_healthCheck_keys:
  "hc_id (set_healthCheck params c) = hc_id c"
  "hc_healthCheckUuid (set_healthCheck params c) = hc_healthCheckUuid c"
  "hc_startedAt (set_healthCheck params c) = hc_startedAt c"
  by (simp_all add: set_healthCheck_def)

lemma set_workerHealthCheck_keys:
  "wc_id (set_workerHealthCheck params c) = wc_id c"
  "wc_workerCheckUuid (set_workerHealthCheck params c) = wc_workerCheckUuid c"
  "wc_healthCheckUuid (set_workerHealthCheck params c) = wc_healthCheckUuid c"
  "wc_createdAt (set_workerHealthCheck params c) = wc_createdAt c"
  by (simp_all add: set_workerHealthCheck_def)

lemma createHealthCheck_cases:
  "createHealthCheck db now params =
     (if chc_healthCheckUuid params \<notin> hc_healthCheckUuid ` set (healthChecks db)
      then Inr (next_id (map hc_id (healthChecks db)),
                db\<lparr>healthChecks := healthChecks db @
                     [\<lparr> hc_id = next_id (map hc_id (healthChecks db)),
                        hc_healthCheckUuid = chc_healthCheckUuid params,
                        hc_triggerType = chc_triggerType params,
                        hc_triggerSource = chc_triggerSource params,
                        hc_status = Some ''running'',
                        hc_totalWorkers =
                          Some (case chc_totalWorkers params of None \<Rightarrow> 0 | Some v \<Rightarrow> v),
                        hc_completedWorkers = Some 0,
                        hc_passedWorkers = Some 0,
                        hc_failedWorkers = Some 0,
                        hc_overallHealthScore = None,
                        hc_aiAnalysis = None,
                        hc_aiRecommendations = None,
                        hc_startedAt = Some now,
                        hc_completedAt = None,
                        hc_timeoutAt = chc_timeoutAt params,
                        hc_createdAt = Some now \<rparr>]\<rparr>)
      else Inl ConstraintError)"
  by (simp add: createHealthCheck_def healthChecks_default_def healthChecks_unique_def Let_def)

lemma createWorkerHealthCheck_cases:
  "createWorkerHealthCheck db now params =
     (if cwc_workerCheckUuid params \<notin> wc_workerCheckUuid ` set (workerHealthChecks db)
         \<and> cwc_healthCheckUuid params \<in> hc_healthCheckUuid ` set (healthChecks db)
      then Inr (next_id (map wc_id (workerHealthChecks db)),
                db\<lparr>workerHealthChecks := workerHealthChecks db @
                     [\<lparr> wc_id = next_id (map wc_id (workerHealthChecks db)),
                        wc_workerCheckUuid = cwc_workerCheckUuid params,
                        wc_healthCheckUuid = cwc_healthCheckUuid params,
                        wc_workerName = cwc_workerName params,
                        wc_workerType = cwc_workerType params,
                        wc_workerUrl = cwc_workerUrl params,
                        wc_status = Some ''pending'',
                        wc_overallStatus = None,
                        wc_healthScore = None,
                        wc_createdAt = Some now,
                        wc_completedAt = None \<rparr>]\<rparr>)
      else Inl ConstraintError)"
  by (simp add: createWorkerHealthCheck_def workerHealthChecks_default_def
      workerHealthChecks_constraints_def Let_def)

subsection \<open>Invariants of the reachable stores\<close>

lemma run_exists_iff: "run_exists db uuid \<longleftrightarrow> uuid \<in> hc_healthCheckUuid ` set (healthChecks db)"
  by (auto simp: run_exists_def)

lemma results_reference_runs_iff:
  "results_reference_runs db \<longleftrightarrow>
     wc_healthCheckUuid ` set (workerHealthChecks db) \<subseteq> hc_healthCheckUuid ` set (healthChecks db)"
  unfolding results_reference_runs_def run_exists_iff by blast

lemma createHealthCheck_adds:
  assumes "createHealthCheck db now params = Inr (i, db')"
  shows "workerHealthChecks db' = workerHealthChecks db"
    and "hc_healthCheckUuid ` set (healthChecks db') =
           insert (chc_healthCheckUuid params) (hc_healthCheckUuid ` set (healthChecks db))"
    and "hc_startedAt ` set (healthChecks db') =
           insert (Some now) (hc_startedAt ` set (healthChecks db))"
  using assms by (auto simp: createHealthCheck_cases split: if_splits)

lemma createWorkerHealthCheck_adds:
  assumes "createWorkerHealthCheck db now params = Inr (i, db')"
  shows "healthChecks db' = healthChecks db"
    and "wc_healthCheckUuid ` set (workerHealthChecks db') =
           insert (cwc_healthCheckUuid params) (wc_healthCheckUuid ` set (workerHealthChecks db))"
    and "wc_createdAt ` set (workerHealthChecks db') =
           insert (Some now) (wc_createdAt ` set (workerHealthChecks db))"
    and "cwc_healthCheckUuid params \<in> hc_healthCheckUuid ` set (healthChecks db)"
  using assms by (auto simp: createWorkerHealthCheck_cases split: if_splits)

lemma image_map_cong:
  assumes "map f (map g xs) = map f xs"
  shows "f ` set (map g xs) = f ` set xs"
proof -
  have "f ` set (map g xs) = set (map f (map g xs))" by (simp only: set_map)
  also have "\<dots> = set (map f xs)" by (simp only: assms)
  also have "\<dots> = f ` set xs" by (simp only: set_map)
  finally show ?thesis .
qed

lemma updateHealthCheck_keeps:
  assumes "updateHealthCheck db params = Inr (r, db')"
  shows "workerHealthChecks db' = workerHealthChecks db"
    and "hc_healthCheckUuid ` set (healthChecks db') = hc_healthCheckUuid ` set (healthChecks db)"
    and "hc_startedAt ` set (healthChecks db') = hc_startedAt ` set (healthChecks db)"
proof -
  let ?f = "\<lambda>c. if hc_healthCheckUuid c = uhc_healthCheckUuid params
                 then set_healthCheck params c else c"
  from assms have db': "db' = db\<lparr>healthChecks := map ?f (healthChecks db)\<rparr>"
    by (simp add: updateHealthCheck_def split: if_splits)
  then have rows: "healthChecks db' = map ?f (healthChecks db)" by simp
  show "workerHealthChecks db' = workerHealthChecks db" by (simp add: db')
  have "map hc_healthCheckUuid (map ?f (healthChecks db)) = map hc_healthCheckUuid (healthChecks db)"
    by (simp add: set_healthCheck_keys)
  then show "hc_healthCheckUuid ` set (healthChecks db') = hc_healthCheckUuid ` set (healthChecks db)"
    unfolding rows by (rule image_map_cong)
  have "map hc_startedAt (map ?f (healthChecks db)) = map hc_startedAt (healthChecks db)"
    by (simp add: set_healthCheck_keys)
  then show "hc_startedAt ` set (healthChecks db') = hc_startedAt ` set (healthChecks db)"
    unfolding rows by (rule image_map_cong)
qed

lemma updateWorkerHealthCheck_keeps:
  assumes "updateWorkerHealthCheck db params = Inr (r, db')"
  shows "healthChecks db' = healthChecks db"
    and "wc_healthCheckUuid ` set (workerHealthChecks db') =
           wc_healthCheckUuid ` set (workerHealthChecks db)"
    and "wc_createdAt ` set (workerHealthChecks db') = wc_createdAt ` set (workerHealthChecks db)"
proof -
  let ?f = "\<lambda>c. if wc_workerCheckUuid c = uwc_workerCheckUuid params
                 then set_workerHealthCheck params c else c"
  from assms have db': "db' = db\<lparr>workerHealthChecks := map ?f (workerHealthChecks db)\<rparr>"
    by (simp add: updateWorkerHealthCheck_def split: if_splits)
  then have rows: "workerHealthChecks db' = map ?f (workerHealthChecks db)" by simp
  show "healthChecks db' = healthChecks db" by (simp add: db')
  have "map wc_healthCheckUuid (map ?f (workerHealthChecks db)) =
          map wc_healthCheckUuid (workerHealthChecks db)"
    by (simp add: set_workerHealthCheck_keys)
  then show "wc_healthCheckUuid ` set (workerHealthChecks db') =
               wc_healthCheckUuid ` set (workerHealthChecks db)"
    unfolding rows by (rule image_map_cong)
  have "map wc_createdAt (map ?f (workerHealthChecks db)) = map wc_createdAt (workerHealthChecks db)"
    by (simp add: set_workerHealthCheck_keys)
  then show "wc_createdAt ` set (workerHealthChecks db') = wc_createdAt ` set (workerHealthChecks db)"
    unfolding rows by (rule image_map_cong)
qed


lemma reachable_references: "reachable_store db \<Longrightarrow> results_reference_runs db"
proof (induction rule: reachable_store.induct)
  case init
  show ?case by (simp add: results_reference_runs_iff empty_db_def)
next
  case (createHC db now params i db')
  from createHealthCheck_adds [OF createHC.hyps(2)] createHC.IH show ?case
    unfolding results_reference_runs_iff by auto
next
  case (updateHC db params r db')
  from updateHealthCheck_keeps [OF updateHC.hyps(2)] updateHC.IH show ?case
    by (simp add: results_reference_runs_iff)
next
  case (createWC db now params i db')
  from createWorkerHealthCheck_adds [OF createWC.hyps(2)] createWC.IH show ?case
    unfolding results_reference_runs_iff by auto
next
  case (updateWC db params r db')
  from updateWorkerHealthCheck_keeps [OF updateWC.hyps(2)] updateWC.IH show ?case
    by (simp add: results_reference_runs_iff)
qed

text \<open>The stores of the examples are reachable.\<close>

lemma reachable_db_created: "reachable_store db_created"
proof -
  have s1: "createHealthCheck empty_db 5 (create_run ''r1'' ''manual'') = Inr (1, db_run)"
    by (simp add: createHealthCheck_cases empty_db_def create_run_def run_ex_def db_run_def
        next_id_def)
  have s2: "createWorkerHealthCheck db_run 6 (create_result ''w1'' ''r1'') = Inr (1, db_created)"
    by (simp add: createWorkerHealthCheck_cases create_result_def result_ex_def run_ex_def
        db_run_def db_created_def next_id_def)
  show ?thesis
    by (rule reachable_store.createWC [OF _ s2], rule reachable_store.createHC [OF _ s1],
        rule reachable_store.init)
qed


subsection \<open>Point lookups\<close>

text \<open>
  C6. For every run identifier and check identifier, \<open>getHealthCheck\<close> and
  \<open>getWorkerHealthCheck\<close> resolve with \<open>null\<close> exactly when no row carries the identifier,
  resolve with the response built from a row that carries it otherwise, and never reject.
\<close>

theorem point_lookup_absent:
  "(getHealthCheck db now uuid = Inr None
      \<longleftrightarrow> uuid \<notin> hc_healthCheckUuid ` set (healthChecks db))
   \<and> (uuid \<in> hc_healthCheckUuid ` set (healthChecks db) \<longrightarrow>
        (\<exists>check \<in> set (healthChecks db). hc_healthCheckUuid check = uuid
           \<and> getHealthCheck db now uuid = Inr (Some (toHealthCheckResponse now check))))
   \<and> (\<forall>e. getHealthCheck db now uuid \<noteq> Inl e)
   \<and> (getWorkerHealthCheck db now uuid = Inr None
        \<longleftrightarrow> uuid \<notin> wc_workerCheckUuid ` set (workerHealthChecks db))
   \<and> (uuid \<in> wc_workerCheckUuid ` set (workerHealthChecks db) \<longrightarrow>
        (\<exists>check \<in> set (workerHealthChecks db). wc_workerCheckUuid check = uuid
           \<and> getWorkerHealthCheck db now uuid =
               Inr (Some (toWorkerHealthCheckResponse now check))))
   \<and> (\<forall>e. getWorkerHealthCheck db now uuid \<noteq> Inl e)"
proof (intro conjI impI allI)
  show "getHealthCheck db now uuid = Inr None
      \<longleftrightarrow> uuid \<notin> hc_healthCheckUuid ` set (healthChecks db)"
    by (auto simp: getHealthCheck_cases filter_empty_conv split: list.splits
        dest: filter_Cons_mem)
  show "getWorkerHealthCheck db now uuid = Inr None
      \<longleftrightarrow> uuid \<notin> wc_workerCheckUuid ` set (workerHealthChecks db)"
    by (auto simp: getWorkerHealthCheck_cases filter_empty_conv split: list.splits
        dest: filter_Cons_mem)
  show "getHealthCheck db now uuid \<noteq> Inl e" for e
    by (simp add: getHealthCheck_cases split: list.splits)
  show "getWorkerHealthCheck db now uuid \<noteq> Inl e" for e
    by (simp add: getWorkerHealthCheck_cases split: list.splits)
next
  assume "uuid \<in> hc_healthCheckUuid ` set (healthChecks db)"
  then obtain y ys where
    f: "filter (\<lambda>c. hc_healthCheckUuid c = uuid) (healthChecks db) = y # ys"
    by (cases "filter (\<lambda>c. hc_healthCheckUuid c = uuid) (healthChecks db)")
       (auto simp: filter_empty_conv)
  from filter_Cons_mem [OF f] f
  show "\<exists>check \<in> set (healthChecks db). hc_healthCheckUuid check = uuid
           \<and> getHealthCheck db now uuid = Inr (Some (toHealthCheckResponse now check))"
    by (auto simp: getHealthCheck_cases)
next
  assume "uuid \<in> wc_workerCheckUuid ` set (workerHealthChecks db)"
  then obtain y ys where
    f: "filter (\<lambda>c. wc_workerCheckUuid c = uuid) (workerHealthChecks db) = y # ys"
    by (cases "filter (\<lambda>c. wc_workerCheckUuid c = uuid) (workerHealthChecks db)")
       (auto simp: filter_empty_conv)
  from filter_Cons_mem [OF f] f
  show "\<exists>check \<in> set (workerHealthChecks db). wc_workerCheckUuid check = uuid
           \<and> getWorkerHealthCheck db now uuid =
               Inr (Some (toWorkerHealthCheckResponse now check))"
    by (auto simp: getWorkerHealthCheck_cases)
qed

theorem point_lookup_absent_witness:
  "''r9'' \<notin> hc_healthCheckUuid ` set (healthChecks db_created)
   \<and> getHealthCheck db_created 0 ''r9'' = Inr None
   \<and> ''w1'' \<in> wc_workerCheckUuid ` set (workerHealthChecks db_created)
   \<and> getWorkerHealthCheck db_created 0 ''w1'' =
       Inr (Some (toWorkerHealthCheckResponse 0 (result_ex 1 ''w1'' ''r1'' 6)))"
proof -
  note l = point_lookup_absent [of db_created 0 _]
  have absent: "''r9'' \<notin> hc_healthCheckUuid ` set (healthChecks db_created)"
    by (simp add: db_created_def db_run_def run_ex_def)
  have present: "''w1'' \<in> wc_workerCheckUuid ` set (workerHealthChecks db_created)"
    by (simp add: db_created_def result_ex_def)
  from l [of "''r9''"] absent have none: "getHealthCheck db_created 0 ''r9'' = Inr None"
    by blast
  from l [of "''w1''"] present obtain check where
    "check \<in> set (workerHealthChecks db_created)"
    "getWorkerHealthCheck db_created 0 ''w1'' =
       Inr (Some (toWorkerHealthCheckResponse 0 check))"
    by blast
  then have some: "getWorkerHealthCheck db_created 0 ''w1'' =
       Inr (Some (toWorkerHealthCheckResponse 0 (result_ex 1 ''w1'' ''r1'' 6)))"
    by (simp add: db_created_def)
  from absent none present some show ?thesis by (intro conjI)
qed

subsection \<open>Updates\<close>

text \<open>
  The specification has every update return \<open>{ok: true}\<close>. An update that names a row and
  gives no column to set does not: \<open>updateData\<close> is empty, and the call fails before any
  statement runs, for an identifier that matches a row as for one that matches none.
\<close>

theorem update_nothing_counterexample:
  "updateHealthCheck db_created (score_run ''r1'' None) = Inl NoValuesToSet
   \<and> updateHealthCheck db_created (score_run ''r9'' None) = Inl NoValuesToSet
   \<and> updateWorkerHealthCheck db_created (score_result ''w1'' None) = Inl NoValuesToSet
   \<and> updateWorkerHealthCheck db_created (score_result ''w9'' None) = Inl NoValuesToSet"
  by (simp add: updateHealthCheck_def healthCheck_updateData_empty_def score_run_def
      updateWorkerHealthCheck_def workerHealthCheck_updateData_empty_def score_result_def)

text \<open>
  C10, as the code has it. For every identifier, including one matching no stored row, an
  update that gives at least one column to set resolves with \<open>{ok: true}\<close>: it overwrites
  the given columns in the rows that carry the identifier, creates no row, keeps every row
  identifier and leaves the other table alone, and when the identifier matches no row it
  leaves the store unchanged. An update that gives no column fails with the error of the
  query builder (\<open>No values to set\<close>), whatever the identifier.
\<close>

theorem update_ok_and_noop:
  "(healthCheck_updateData_empty params \<longrightarrow> updateHealthCheck db params = Inl NoValuesToSet)
   \<and> (\<not> healthCheck_updateData_empty params \<longrightarrow>
        (\<exists>db'. updateHealthCheck db params = Inr (\<lparr> ok = True \<rparr>, db')
           \<and> healthChecks db' =
               map (\<lambda>c. if hc_healthCheckUuid c = uhc_healthCheckUuid params
                         then set_healthCheck params c else c) (healthChecks db)
           \<and> map hc_id (healthChecks db') = map hc_id (healthChecks db)
           \<and> workerHealthChecks db' = workerHealthChecks db)
        \<and> (uhc_healthCheckUuid params \<notin> hc_healthCheckUuid ` set (healthChecks db)
             \<longrightarrow> updateHealthCheck db params = Inr (\<lparr> ok = True \<rparr>, db)))
   \<and> (workerHealthCheck_updateData_empty wparams \<longrightarrow>
        updateWorkerHealthCheck db wparams = Inl NoValuesToSet)
   \<and> (\<not> workerHealthCheck_updateData_empty wparams \<longrightarrow>
        (\<exists>db'. updateWorkerHealthCheck db wparams = Inr (\<lparr> ok = True \<rparr>, db')
           \<and> workerHealthChecks db' =
               map (\<lambda>c. if wc_workerCheckUuid c = uwc_workerCheckUuid wparams
                         then set_workerHealthCheck wparams c else c) (workerHealthChecks db)
           \<and> map wc_id (workerHealthChecks db') = map wc_id (workerHealthChecks db)
           \<and> healthChecks db' = healthChecks db)
        \<and> (uwc_workerCheckUuid wparams \<notin> wc_workerCheckUuid ` set (workerHealthChecks db)
             \<longrightarrow> updateWorkerHealthCheck db wparams = Inr (\<lparr> ok = True \<rparr>, db)))"
proof (intro conjI impI)
  assume "healthCheck_updateData_empty params"
  then show "updateHealthCheck db params = Inl NoValuesToSet"
    by (simp add: updateHealthCheck_def)
next
  assume "workerHealthCheck_updateData_empty wparams"
  then show "updateWorkerHealthCheck db wparams = Inl NoValuesToSet"
    by (simp add: updateWorkerHealthCheck_def)
next
  assume "\<not> healthCheck_updateData_empty params"
  then show "\<exists>db'. updateHealthCheck db params = Inr (\<lparr> ok = True \<rparr>, db')
           \<and> healthChecks db' =
               map (\<lambda>c. if hc_healthCheckUuid c = uhc_healthCheckUuid params
                         then set_healthCheck params c else c) (healthChecks db)
           \<and> map hc_id (healthChecks db') = map hc_id (healthChecks db)
           \<and> workerHealthChecks db' = workerHealthChecks db"
    by (simp add: updateHealthCheck_def set_healthCheck_keys comp_def)
next
  assume "\<not> workerHealthCheck_updateData_empty wparams"
  then show "\<exists>db'. updateWorkerHealthCheck db wparams = Inr (\<lparr> ok = True \<rparr>, db')
           \<and> workerHealthChecks db' =
               map (\<lambda>c. if wc_workerCheckUuid c = uwc_workerCheckUuid wparams
                         then set_workerHealthCheck wparams c else c) (workerHealthChecks db)
           \<and> map wc_id (workerHealthChecks db') = map wc_id (workerHealthChecks db)
           \<and> healthChecks db' = healthChecks db"
    by (simp add: updateWorkerHealthCheck_def set_workerHealthCheck_keys comp_def)
next
  assume given: "\<not> healthCheck_updateData_empty params"
    and "uhc_healthCheckUuid params \<notin> hc_healthCheckUuid ` set (healthChecks db)"
  then have "map (\<lambda>c. if hc_healthCheckUuid c = uhc_healthCheckUuid params
                       then set_healthCheck params c else c) (healthChecks db) = healthChecks db"
    by (intro map_idI) force
  with given show "updateHealthCheck db params = Inr (\<lparr> ok = True \<rparr>, db)"
    by (simp add: updateHealthCheck_def)
next
  assume given: "\<not> workerHealthCheck_updateData_empty wparams"
    and "uwc_workerCheckUuid wparams \<notin> wc_workerCheckUuid ` set (workerHealthChecks db)"
  then have "map (\<lambda>c. if wc_workerCheckUuid c = uwc_workerCheckUuid wparams
                       then set_workerHealthCheck wparams c else c) (workerHealthChecks db)
             = workerHealthChecks db"
    by (intro map_idI) force
  with given show "updateWorkerHealthCheck db wparams = Inr (\<lparr> ok = True \<rparr>, db)"
    by (simp add: updateWorkerHealthCheck_def)
qed

theorem update_ok_and_noop_witness:
  "\<not> healthCheck_updateData_empty (score_run ''r9'' (Some (9 / 10)))
   \<and> ''r9'' \<notin> hc_healthCheckUuid ` set (healthChecks db_created)
   \<and> updateHealthCheck db_created (score_run ''r9'' (Some (9 / 10))) =
       Inr (\<lparr> ok = True \<rparr>, db_created)
   \<and> \<not> workerHealthCheck_updateData_empty (score_result ''w9'' (Some (1 / 2)))
   \<and> ''w9'' \<notin> wc_workerCheckUuid ` set (workerHealthChecks db_created)
   \<and> updateWorkerHealthCheck db_created (score_result ''w9'' (Some (1 / 2))) =
       Inr (\<lparr> ok = True \<rparr>, db_created)
   \<and> healthCheck_updateData_empty (score_run ''r1'' None)
   \<and> updateHealthCheck db_created (score_run ''r1'' None) = Inl NoValuesToSet"
proof -
  note u = update_ok_and_noop [of _ db_created]
  have given: "\<not> healthCheck_updateData_empty (score_run ''r9'' (Some (9 / 10)))"
    by (simp add: healthCheck_updateData_empty_def score_run_def)
  have run: "uhc_healthCheckUuid (score_run ''r9'' (Some (9 / 10)))
               \<notin> hc_healthCheckUuid ` set (healthChecks db_created)"
    by (simp add: db_created_def db_run_def run_ex_def score_run_def)
  have wgiven: "\<not> workerHealthCheck_updateData_empty (score_result ''w9'' (Some (1 / 2)))"
    by (simp add: workerHealthCheck_updateData_empty_def score_result_def)
  have res: "uwc_workerCheckUuid (score_result ''w9'' (Some (1 / 2)))
               \<notin> wc_workerCheckUuid ` set (workerHealthChecks db_created)"
    by (simp add: db_created_def result_ex_def score_result_def)
  have empty: "healthCheck_updateData_empty (score_run ''r1'' None)"
    by (simp add: healthCheck_updateData_empty_def score_run_def)
  from u [of "score_run ''r9'' (Some (9 / 10))"] given run
  have a: "updateHealthCheck db_created (score_run ''r9'' (Some (9 / 10))) =
       Inr (\<lparr> ok = True \<rparr>, db_created)"
    by blast
  from u [of _ "score_result ''w9'' (Some (1 / 2))"] wgiven res
  have b: "updateWorkerHealthCheck db_created (score_result ''w9'' (Some (1 / 2))) =
       Inr (\<lparr> ok = True \<rparr>, db_created)"
    by blast
  from u [of "score_run ''r1'' None"] empty
  have c: "updateHealthCheck db_created (score_run ''r1'' None) = Inl NoValuesToSet"
    by blast
  have run': "''r9'' \<notin> hc_healthCheckUuid ` set (healthChecks db_created)"
    using run by (simp add: score_run_def)
  have res': "''w9'' \<notin> wc_workerCheckUuid ` set (workerHealthChecks db_created)"
    using res by (simp add: score_result_def)
  from given run' a wgiven res' b empty c show ?thesis by (intro conjI)
qed

subsection \<open>Pagination\<close>




subsection \<open>Order of the listings\<close>









subsection \<open>Results and their runs\<close>

text \<open>
  The specification has the creation of a result for a run that does not exist fail with
  \<open>NotFoundError\<close>. The entrypoint looks for no run and raises nothing of its own; what
  stops the insert is the foreign key of the table, and the call fails with the constraint
  error of the database.
\<close>

theorem missing_run_counterexample:
  "\<not> run_exists empty_db ''r0''
   \<and> createWorkerHealthCheck empty_db 6 (create_result ''w1'' ''r0'') = Inl ConstraintError
   \<and> createWorkerHealthCheck empty_db 6 (create_result ''w1'' ''r0'') \<noteq> Inl NotFoundError"
  by (simp add: run_exists_def createWorkerHealthCheck_cases empty_db_def create_result_def)

text \<open>
  C4, as the code has it. Creating a worker health-check result for a run identifier that
  does not reference an existing run fails, with the constraint error of the database and
  never with \<open>NotFoundError\<close>. When the run exists and the check identifier is new, the call
  appends one pending result without a score that carries the identifiers as given, and
  resolves with its row identifier; in no other case does it resolve. So in every reachable
  store state each result's run identifier references an existing run.
\<close>

theorem createWorkerHealthCheck_run_checked:
  "(\<not> run_exists db (cwc_healthCheckUuid params) \<longrightarrow>
      createWorkerHealthCheck db now params = Inl ConstraintError)
   \<and> createWorkerHealthCheck db now params \<noteq> Inl NotFoundError
   \<and> (run_exists db (cwc_healthCheckUuid params)
        \<and> cwc_workerCheckUuid params \<notin> wc_workerCheckUuid ` set (workerHealthChecks db) \<longrightarrow>
        (\<exists>i c. createWorkerHealthCheck db now params =
                  Inr (i, db\<lparr>workerHealthChecks := workerHealthChecks db @ [c]\<rparr>)
           \<and> wc_id c = i
           \<and> wc_workerCheckUuid c = cwc_workerCheckUuid params
           \<and> wc_healthCheckUuid c = cwc_healthCheckUuid params
           \<and> wc_status c = Some ''pending''
           \<and> wc_healthScore c = None))
   \<and> (\<forall>i db'. createWorkerHealthCheck db now params = Inr (i, db') \<longrightarrow>
          run_exists db (cwc_healthCheckUuid params)
        \<and> cwc_workerCheckUuid params \<notin> wc_workerCheckUuid ` set (workerHealthChecks db))
   \<and> (reachable_store db \<longrightarrow> results_reference_runs db)"
proof (intro conjI impI allI)
  assume "\<not> run_exists db (cwc_healthCheckUuid params)"
  then show "createWorkerHealthCheck db now params = Inl ConstraintError"
    by (simp add: createWorkerHealthCheck_cases run_exists_iff)
next
  show "createWorkerHealthCheck db now params \<noteq> Inl NotFoundError"
    by (simp add: createWorkerHealthCheck_cases)
next
  assume "run_exists db (cwc_healthCheckUuid params)
            \<and> cwc_workerCheckUuid params \<notin> wc_workerCheckUuid ` set (workerHealthChecks db)"
  then have ok: "cwc_workerCheckUuid params \<notin> wc_workerCheckUuid ` set (workerHealthChecks db)
           \<and> cwc_healthCheckUuid params \<in> hc_healthCheckUuid ` set (healthChecks db)"
    by (simp add: run_exists_iff)
  show "\<exists>i c. createWorkerHealthCheck db now params =
                  Inr (i, db\<lparr>workerHealthChecks := workerHealthChecks db @ [c]\<rparr>)
           \<and> wc_id c = i
           \<and> wc_workerCheckUuid c = cwc_workerCheckUuid params
           \<and> wc_healthCheckUuid c = cwc_healthCheckUuid params
           \<and> wc_status c = Some ''pending''
           \<and> wc_healthScore c = None"
    unfolding createWorkerHealthCheck_cases if_P [OF ok]
    by (intro exI conjI) (rule refl, simp_all)
next
  fix i db'
  assume "createWorkerHealthCheck db now params = Inr (i, db')"
  then show "run_exists db (cwc_healthCheckUuid params)"
    and "cwc_workerCheckUuid params \<notin> wc_workerCheckUuid ` set (workerHealthChecks db)"
    by (simp_all add: createWorkerHealthCheck_cases run_exists_iff split: if_splits)
next
  assume "reachable_store db"
  then show "results_reference_runs db" by (rule reachable_references)
qed

text \<open>
  In the store that holds the run \<open>r1\<close>, creating the result \<open>w1\<close> for it gives the store of
  the example, which is reachable and has no result without its run; creating the result
  for the run \<open>r0\<close> is refused.
\<close>

theorem createWorkerHealthCheck_run_checked_witness:
  "run_exists db_run ''r1''
   \<and> ''w1'' \<notin> wc_workerCheckUuid ` set (workerHealthChecks db_run)
   \<and> createWorkerHealthCheck db_run 6 (create_result ''w1'' ''r1'') = Inr (1, db_created)
   \<and> reachable_store db_created
   \<and> results_reference_runs db_created
   \<and> \<not> run_exists db_run ''r0''
   \<and> createWorkerHealthCheck db_run 6 (create_result ''w1'' ''r0'') = Inl ConstraintError"
proof -
  note c = createWorkerHealthCheck_run_checked
  have run: "run_exists db_run ''r1''"
    by (simp add: run_exists_def db_run_def run_ex_def)
  have new: "''w1'' \<notin> wc_workerCheckUuid ` set (workerHealthChecks db_run)"
    by (simp add: db_run_def)
  have none: "\<not> run_exists db_run ''r0''"
    by (simp add: run_exists_def db_run_def run_ex_def)
  from c [of db_run "create_result ''w1'' ''r1''" 6] run new
  obtain i row where row:
    "createWorkerHealthCheck db_run 6 (create_result ''w1'' ''r1'') =
       Inr (i, db_run\<lparr>workerHealthChecks := workerHealthChecks db_run @ [row]\<rparr>)"
    by (auto simp: create_result_def)
  have created: "createWorkerHealthCheck db_run 6 (create_result ''w1'' ''r1'') =
                   Inr (1, db_created)"
    by (simp add: createWorkerHealthCheck_cases create_result_def result_ex_def run_ex_def
        db_run_def db_created_def next_id_def)
  have reach: "reachable_store db_created" by (rule reachable_db_created)
  from c [of db_created] reach have inv: "results_reference_runs db_created" by blast
  from c [of db_run "create_result ''w1'' ''r0''" 6] none
  have refused: "createWorkerHealthCheck db_run 6 (create_result ''w1'' ''r0'') =
                   Inl ConstraintError"
    by (simp add: create_result_def)
  from run new created reach inv none refused show ?thesis by (intro conjI)
qed

subsection \<open>Scores and statuses\<close>

text \<open>
  The specification leaves the score of a running run and of a pending result undefined.
  The store does not: the state with the run \<open>r1\<close> and its result \<open>w1\<close>, each updated with a
  score and nothing else, is reachable, and the lookups answer with the status \<open>running\<close>
  and the score 9/10, and with the status \<open>pending\<close> and the score 1/2. Before the updates
  they answer with the number 0.
\<close>

theorem running_score_counterexample:
  "reachable_store db_scored
   \<and> map_sum id (map_option (\<lambda>r. (status_r r, overallHealthScore r)))
       (getHealthCheck db_scored 0 ''r1'') = Inr (Some (''running'', 9 / 10))
   \<and> map_sum id (map_option (\<lambda>r. (status_w r, healthScore r)))
       (getWorkerHealthCheck db_scored 0 ''w1'') = Inr (Some (''pending'', 1 / 2))
   \<and> map_sum id (map_option (\<lambda>r. (status_r r, overallHealthScore r)))
       (getHealthCheck db_created 0 ''r1'') = Inr (Some (''running'', 0))
   \<and> map_sum id (map_option (\<lambda>r. (status_w r, healthScore r)))
       (getWorkerHealthCheck db_created 0 ''w1'') = Inr (Some (''pending'', 0))"
proof -
  let ?db3 = "\<lparr> healthChecks = [(run_ex 1 ''r1'' ''manual'' 5)\<lparr>hc_overallHealthScore := Some (9 / 10)\<rparr>],
                workerHealthChecks = [result_ex 1 ''w1'' ''r1'' 6] \<rparr>"
  have s3: "updateHealthCheck db_created (score_run ''r1'' (Some (9 / 10))) =
              Inr (\<lparr> ok = True \<rparr>, ?db3)"
    by (simp add: updateHealthCheck_def healthCheck_updateData_empty_def set_healthCheck_def
        assign_def db_created_def db_run_def score_run_def run_ex_def)
  have s4: "updateWorkerHealthCheck ?db3 (score_result ''w1'' (Some (1 / 2))) =
              Inr (\<lparr> ok = True \<rparr>, db_scored)"
    by (simp add: updateWorkerHealthCheck_def workerHealthCheck_updateData_empty_def
        set_workerHealthCheck_def assign_def db_scored_def score_result_def result_ex_def)
  have reach: "reachable_store db_scored"
    by (rule reachable_store.updateWC [OF _ s4], rule reachable_store.updateHC [OF _ s3],
        rule reachable_db_created)
  have a: "map_sum id (map_option (\<lambda>r. (status_r r, overallHealthScore r)))
       (getHealthCheck db_scored 0 ''r1'') = Inr (Some (''running'', 9 / 10))"
    by (simp add: getHealthCheck_cases db_scored_def run_ex_def toHealthCheckResponse_def)
  have b: "map_sum id (map_option (\<lambda>r. (status_w r, healthScore r)))
       (getWorkerHealthCheck db_scored 0 ''w1'') = Inr (Some (''pending'', 1 / 2))"
    by (simp add: getWorkerHealthCheck_cases db_scored_def result_ex_def
        toWorkerHealthCheckResponse_def)
  have c: "map_sum id (map_option (\<lambda>r. (status_r r, overallHealthScore r)))
       (getHealthCheck db_created 0 ''r1'') = Inr (Some (''running'', 0))"
    by (simp add: getHealthCheck_cases db_created_def db_run_def run_ex_def
        toHealthCheckResponse_def)
  have d: "map_sum id (map_option (\<lambda>r. (status_w r, healthScore r)))
       (getWorkerHealthCheck db_created 0 ''w1'') = Inr (Some (''pending'', 0))"
    by (simp add: getWorkerHealthCheck_cases db_created_def result_ex_def
        toWorkerHealthCheckResponse_def)
  from reach a b c d show ?thesis by (intro conjI)
qed

text \<open>
  C9, as the code has it. A lookup that finds a run or a result always surfaces a number as
  its score: the stored score of a row with that identifier, or 0 where none is stored; and
  its status is the stored one, or \<open>running\<close> (\<open>pending\<close> for a result) where none is stored.
  Nothing ties the score to the status. A run is created with the status \<open>running\<close> and a
  result with the status \<open>pending\<close>, both without a stored score: every creation that the
  constraints of the tables admit resolves with such a row appended, and no creation
  resolves otherwise.
\<close>

theorem lookup_surfaces_stored_score:
  "(\<forall>r. getHealthCheck db now uuid = Inr (Some r) \<longrightarrow>
      (\<exists>c \<in> set (healthChecks db). hc_healthCheckUuid c = uuid
         \<and> status_r r = (case hc_status c of None \<Rightarrow> ''running'' | Some v \<Rightarrow> v)
         \<and> overallHealthScore r = (case hc_overallHealthScore c of None \<Rightarrow> 0 | Some v \<Rightarrow> v)))
   \<and> (\<forall>r. getWorkerHealthCheck db now wuuid = Inr (Some r) \<longrightarrow>
      (\<exists>c \<in> set (workerHealthChecks db). wc_workerCheckUuid c = wuuid
         \<and> status_w r = (case wc_status c of None \<Rightarrow> ''pending'' | Some v \<Rightarrow> v)
         \<and> healthScore r = (case wc_healthScore c of None \<Rightarrow> 0 | Some v \<Rightarrow> v)))
   \<and> (healthChecks_unique db (chc_healthCheckUuid cparams) \<longrightarrow>
        (\<exists>i c. createHealthCheck db now cparams =
                  Inr (i, db\<lparr>healthChecks := healthChecks db @ [c]\<rparr>)
           \<and> hc_status c = Some ''running'' \<and> hc_overallHealthScore c = None))
   \<and> (\<forall>i db'. createHealthCheck db now cparams = Inr (i, db') \<longrightarrow>
        (\<exists>c. db' = db\<lparr>healthChecks := healthChecks db @ [c]\<rparr>
           \<and> hc_status c = Some ''running'' \<and> hc_overallHealthScore c = None))
   \<and> (cwc_workerCheckUuid wparams \<notin> wc_workerCheckUuid ` set (workerHealthChecks db)
        \<and> run_exists db (cwc_healthCheckUuid wparams) \<longrightarrow>
        (\<exists>i c. createWorkerHealthCheck db now wparams =
                  Inr (i, db\<lparr>workerHealthChecks := workerHealthChecks db @ [c]\<rparr>)
           \<and> wc_status c = Some ''pending'' \<and> wc_healthScore c = None))
   \<and> (\<forall>i db'. createWorkerHealthCheck db now wparams = Inr (i, db') \<longrightarrow>
        (\<exists>c. db' = db\<lparr>workerHealthChecks := workerHealthChecks db @ [c]\<rparr>
           \<and> wc_status c = Some ''pending'' \<and> wc_healthScore c = None))"
proof (intro conjI allI impI)
  fix r assume "getHealthCheck db now uuid = Inr (Some r)"
  then obtain c cs where
    f: "filter (\<lambda>c. hc_healthCheckUuid c = uuid) (healthChecks db) = c # cs"
    and r: "r = toHealthCheckResponse now c"
    by (auto simp: getHealthCheck_cases split: list.splits)
  from filter_Cons_mem [OF f] r
  show "\<exists>c \<in> set (healthChecks db). hc_healthCheckUuid c = uuid
         \<and> status_r r = (case hc_status c of None \<Rightarrow> ''running'' | Some v \<Rightarrow> v)
         \<and> overallHealthScore r = (case hc_overallHealthScore c of None \<Rightarrow> 0 | Some v \<Rightarrow> v)"
    by (intro bexI [of _ c]) (simp_all add: toHealthCheckResponse_def)
next
  fix r assume "getWorkerHealthCheck db now wuuid = Inr (Some r)"
  then obtain c cs where
    f: "filter (\<lambda>c. wc_workerCheckUuid c = wuuid) (workerHealthChecks db) = c # cs"
    and r: "r = toWorkerHealthCheckResponse now c"
    by (auto simp: getWorkerHealthCheck_cases split: list.splits)
  from filter_Cons_mem [OF f] r
  show "\<exists>c \<in> set (workerHealthChecks db). wc_workerCheckUuid c = wuuid
         \<and> status_w r = (case wc_status c of None \<Rightarrow> ''pending'' | Some v \<Rightarrow> v)
         \<and> healthScore r = (case wc_healthScore c of None \<Rightarrow> 0 | Some v \<Rightarrow> v)"
    by (intro bexI [of _ c]) (simp_all add: toWorkerHealthCheckResponse_def)
next
  assume "healthChecks_unique db (chc_healthCheckUuid cparams)"
  then have ok: "chc_healthCheckUuid cparams \<notin> hc_healthCheckUuid ` set (healthChecks db)"
    by (simp add: healthChecks_unique_def)
  show "\<exists>i c. createHealthCheck db now cparams =
                  Inr (i, db\<lparr>healthChecks := healthChecks db @ [c]\<rparr>)
           \<and> hc_status c = Some ''running'' \<and> hc_overallHealthScore c = None"
    unfolding createHealthCheck_cases if_P [OF ok]
    by (intro exI conjI) (rule refl, simp_all)
next
  fix i db'
  assume "createHealthCheck db now cparams = Inr (i, db')"
  then show "\<exists>c. db' = db\<lparr>healthChecks := healthChecks db @ [c]\<rparr>
           \<and> hc_status c = Some ''running'' \<and> hc_overallHealthScore c = None"
    by (auto simp: createHealthCheck_cases split: if_splits)
next
  assume "cwc_workerCheckUuid wparams \<notin> wc_workerCheckUuid ` set (workerHealthChecks db)
            \<and> run_exists db (cwc_healthCheckUuid wparams)"
  then have ok: "cwc_workerCheckUuid wparams \<notin> wc_workerCheckUuid ` set (workerHealthChecks db)
           \<and> cwc_healthCheckUuid wparams \<in> hc_healthCheckUuid ` set (healthChecks db)"
    by (simp add: run_exists_iff)
  show "\<exists>i c. createWorkerHealthCheck db now wparams =
                  Inr (i, db\<lparr>workerHealthChecks := workerHealthChecks db @ [c]\<rparr>)
           \<and> wc_status c = Some ''pending'' \<and> wc_healthScore c = None"
    unfolding createWorkerHealthCheck_cases if_P [OF ok]
    by (intro exI conjI) (rule refl, simp_all)
next
  fix i db'
  assume "createWorkerHealthCheck db now wparams = Inr (i, db')"
  then show "\<exists>c. db' = db\<lparr>workerHealthChecks := workerHealthChecks db @ [c]\<rparr>
           \<and> wc_status c = Some ''pending'' \<and> wc_healthScore c = None"
    by (auto simp: createWorkerHealthCheck_cases split: if_splits)
qed

theorem lookup_surfaces_stored_score_witness:
  "(\<exists>r. getHealthCheck db_scored 0 ''r1'' = Inr (Some r)
        \<and> status_r r = ''running'' \<and> overallHealthScore r = 9 / 10)
   \<and> (\<exists>r. getWorkerHealthCheck db_scored 0 ''w1'' = Inr (Some r)
        \<and> status_w r = ''pending'' \<and> healthScore r = 1 / 2)"
proof -
  note s = lookup_surfaces_stored_score [of db_scored 0 "''r1''" "''w1''"]
  let ?run = "(run_ex 1 ''r1'' ''manual'' 5)\<lparr>hc_overallHealthScore := Some (9 / 10)\<rparr>"
  let ?res = "(result_ex 1 ''w1'' ''r1'' 6)\<lparr>wc_healthScore := Some (1 / 2)\<rparr>"
  have run: "getHealthCheck db_scored 0 ''r1'' = Inr (Some (toHealthCheckResponse 0 ?run))"
    by (simp add: getHealthCheck_cases db_scored_def run_ex_def)
  with s obtain c where c: "c \<in> set (healthChecks db_scored)"
    "status_r (toHealthCheckResponse 0 ?run) =
       (case hc_status c of None \<Rightarrow> ''running'' | Some v \<Rightarrow> v)"
    "overallHealthScore (toHealthCheckResponse 0 ?run) =
       (case hc_overallHealthScore c of None \<Rightarrow> 0 | Some v \<Rightarrow> v)"
    by blast
  from c(1) have "c = ?run" by (simp add: db_scored_def)
  with c(2,3) run have a: "\<exists>r. getHealthCheck db_scored 0 ''r1'' = Inr (Some r)
        \<and> status_r r = ''running'' \<and> overallHealthScore r = 9 / 10"
    by (simp add: run_ex_def)
  have res: "getWorkerHealthCheck db_scored 0 ''w1'' =
               Inr (Some (toWorkerHealthCheckResponse 0 ?res))"
    by (simp add: getWorkerHealthCheck_cases db_scored_def result_ex_def)
  with s obtain w where w: "w \<in> set (workerHealthChecks db_scored)"
    "status_w (toWorkerHealthCheckResponse 0 ?res) =
       (case wc_status w of None \<Rightarrow> ''pending'' | Some v \<Rightarrow> v)"
    "healthScore (toWorkerHealthCheckResponse 0 ?res) =
       (case wc_healthScore w of None \<Rightarrow> 0 | Some v \<Rightarrow> v)"
    by blast
  from w(1) have "w = ?res" by (simp add: db_scored_def)
  with w(2,3) res have b: "\<exists>r. getWorkerHealthCheck db_scored 0 ''w1'' = Inr (Some r)
        \<and> status_w r = ''pending'' \<and> healthScore r = 1 / 2"
    by (simp add: result_ex_def)
  from a b show ?thesis by (rule conjI)
qed

end
